theory Spec2Isabelle
  imports Complex_Main "HOL-Library.Sublist" "HOL-Library.Log_Nat"
begin

section \<open>JavaScript values used by the adapter and the renderer\<close>

text \<open>
  Strings are character lists, a character being a code unit below 256. A finite number
  is a rational (every binary64 value is one), and the three non-finite values of the
  language are constructors of their own. Negative zero is not told apart from zero: the
  code modelled here only compares numbers, and the two compare alike.
\<close>

datatype number = NaN | PosInfinity | NegInfinity | Finite rat

datatype jsval = Undefined | Num number | Str string | Arr "jsval list"

text \<open>\<^verbatim>\<open>typeof v === 'number'\<close>, \<^verbatim>\<open>v === 0\<close> and the truthiness test of \<^verbatim>\<open>if (v)\<close>.\<close>

fun is_number :: "jsval \<Rightarrow> bool" where
  "is_number (Num n) = True"
| "is_number v = False"

definition is_zero :: "jsval \<Rightarrow> bool" where
  "is_zero v = (v = Num (Finite 0))"

fun truthy :: "jsval \<Rightarrow> bool" where
  "truthy Undefined = False"
| "truthy (Num NaN) = False"
| "truthy (Num (Finite q)) = (q \<noteq> 0)"
| "truthy (Num n) = True"
| "truthy (Str s) = (s \<noteq> [])"
| "truthy (Arr vs) = True"

text \<open>\<^verbatim>\<open>s.includes(p)\<close> and \<^verbatim>\<open>s.startsWith(p)\<close>.\<close>

definition js_includes :: "string \<Rightarrow> string \<Rightarrow> bool" where
  "js_includes s p = sublist p s"

definition startsWith :: "string \<Rightarrow> string \<Rightarrow> bool" where
  "startsWith s p = prefix p s"

text \<open>Decimal rendering of a non-negative integer, as a template literal prints it.\<close>

definition digit_char :: "nat \<Rightarrow> char" where
  "digit_char d = char_of (d + 48)"

fun show_nat :: "nat \<Rightarrow> string" where
  "show_nat n = (if n < 10 then [digit_char n] else show_nat (n div 10) @ [digit_char (n mod 10)])"

declare show_nat.simps [simp del]

text \<open>
  A thrown value is an error object; \<open>message\<close> is \<open>None\<close> when the property is
  undefined. An awaited call either resolves or rejects.
\<close>

datatype js_error = Error (message: "string option")

datatype 'a outcome = Resolves 'a | Rejects js_error

datatype 'a completion = Returned 'a | Threw js_error

text \<open>What a call does besides returning: the attempts it makes on the archive, in
  order, the delays it sleeps (milliseconds) and the lines it logs.\<close>

datatype io = Attempt nat | Warn | Delay nat | LogError

section \<open>The archive handle\<close>

record header =
  tileType :: nat
  minZoom :: nat
  maxZoom :: nat
  minLon :: jsval
  minLat :: jsval
  maxLon :: jsval
  maxLat :: jsval
  centerLon :: jsval
  centerLat :: jsval
  centerZoom :: jsval

record zxy_tile =
  data :: "nat list option"

text \<open>
  The archive reader is an external collaborator. Its replies are indexed by the attempt
  of the caller's retry loop in which the call is made: \<open>getZxy p k z x y\<close> is what
  \<^verbatim>\<open>pmtiles.getZxy(z, x, y)\<close> settles to in attempt \<open>k\<close>.
\<close>

record pmtiles =
  getHeader :: "nat \<Rightarrow> header outcome"
  getMetadata :: "nat \<Rightarrow> (string \<rightharpoonup> jsval) outcome"
  getZxy :: "nat \<Rightarrow> nat \<Rightarrow> nat \<Rightarrow> nat \<Rightarrow> zxy_tile option outcome"

section \<open>pmtiles\_adapter.js: tile types\<close>

record tile_type =
  type :: "string option"
  head :: "(string \<times> string) list"

definition getPmtilesTileType :: "nat \<Rightarrow> tile_type" where
  "getPmtilesTileType typenum =
     (if typenum = 0 then \<lparr>type = Some ''Unknown'', head = []\<rparr>
      else if typenum = 1 then
        \<lparr>type = Some ''pbf'', head = [(''Content-Type'', ''application/x-protobuf'')]\<rparr>
      else if typenum = 2 then \<lparr>type = Some ''png'', head = [(''Content-Type'', ''image/png'')]\<rparr>
      else if typenum = 3 then \<lparr>type = Some ''jpeg'', head = [(''Content-Type'', ''image/jpeg'')]\<rparr>
      else if typenum = 4 then \<lparr>type = Some ''webp'', head = [(''Content-Type'', ''image/webp'')]\<rparr>
      else if typenum = 5 then \<lparr>type = Some ''avif'', head = [(''Content-Type'', ''image/avif'')]\<rparr>
      else \<lparr>type = None, head = []\<rparr>)"

section \<open>pmtiles\_adapter.js: getPMtilesInfo\<close>

definition hasBounds :: "header \<Rightarrow> bool" where
  "hasBounds h \<longleftrightarrow>
     is_number (minLon h) \<and> is_number (minLat h) \<and> is_number (maxLon h) \<and> is_number (maxLat h) \<and>
     \<not> (is_zero (minLon h) \<and> is_zero (minLat h) \<and> is_zero (maxLon h) \<and> is_zero (maxLat h))"

definition world_bounds :: "jsval list" where
  "world_bounds =
     [Num (Finite (- 180)), Num (Finite (- 8505112877980659 / 10 ^ 14)),
      Num (Finite 180), Num (Finite (850511287798066 / 10 ^ 13))]"

text \<open>\<^verbatim>\<open>parseInt\<close> of the header's maximum zoom, a small non-negative integer: it is
  printed in decimal and read back.\<close>

definition parseInt_nat :: "nat \<Rightarrow> rat" where
  "parseInt_nat n = of_nat n"

definition opt_str :: "string option \<Rightarrow> jsval" where
  "opt_str s = (case s of None \<Rightarrow> Undefined | Some t \<Rightarrow> Str t)"

text \<open>The body of the \<^verbatim>\<open>try\<close> block once header and metadata have arrived.\<close>

definition fill_metadata :: "header \<Rightarrow> (string \<rightharpoonup> jsval) \<Rightarrow> (string \<rightharpoonup> jsval)" where
  "fill_metadata h metadata =
     (let m1 = metadata(''format'' \<mapsto> opt_str (type (getPmtilesTileType (tileType h))));
          m2 = m1(''minzoom'' \<mapsto> Num (Finite (of_nat (minZoom h))));
          m3 = m2(''maxzoom'' \<mapsto> Num (Finite (of_nat (maxZoom h))));
          m4 = (if hasBounds h
                then m3(''bounds'' \<mapsto> Arr [minLon h, minLat h, maxLon h, maxLat h])
                else m3(''bounds'' \<mapsto> Arr world_bounds))
      in if truthy (centerZoom h)
         then m4(''center'' \<mapsto> Arr [centerLon h, centerLat h, centerZoom h])
         else m4(''center'' \<mapsto> Arr [centerLon h, centerLat h,
                                    Num (Finite (parseInt_nat (maxZoom h) / 2))]))"

definition info_attempt :: "pmtiles \<Rightarrow> nat \<Rightarrow> (string \<rightharpoonup> jsval) outcome" where
  "info_attempt p attempt =
     (case getHeader p attempt of
        Rejects e \<Rightarrow> Rejects e
      | Resolves h \<Rightarrow>
          (case getMetadata p attempt of
             Rejects e \<Rightarrow> Rejects e
           | Resolves metadata \<Rightarrow> Resolves (fill_metadata h metadata)))"

text \<open>\<^verbatim>\<open>error.message && error.message.includes('429')\<close>; an undefined message prints as
  \<^verbatim>\<open>undefined\<close> in a template literal.\<close>

definition rate_limited :: "js_error \<Rightarrow> bool" where
  "rate_limited e = (case message e of None \<Rightarrow> False | Some m \<Rightarrow> js_includes m ''429'')"

definition message_text :: "js_error \<Rightarrow> string" where
  "message_text e = (case message e of None \<Rightarrow> ''undefined'' | Some m \<Rightarrow> m)"

text \<open>\<^verbatim>\<open>error.message || 'Unknown error'\<close>.\<close>

definition errorMessage :: "js_error \<Rightarrow> string" where
  "errorMessage e =
     (case message e of None \<Rightarrow> ''Unknown error''
      | Some m \<Rightarrow> if m = [] then ''Unknown error'' else m)"

text \<open>The \<^verbatim>\<open>for\<close> loop of getPMtilesInfo, from attempt \<open>attempt\<close> on, with the
  error of the last failed attempt in \<open>lastError\<close>.\<close>

function info_loop ::
  "pmtiles \<Rightarrow> string \<Rightarrow> nat \<Rightarrow> nat \<Rightarrow> js_error option \<Rightarrow>
   (string \<rightharpoonup> jsval) completion \<times> io list" where
  "info_loop p inputFile maxRetries attempt lastError =
     (if attempt < maxRetries then
        (case info_attempt p attempt of
           Resolves metadata \<Rightarrow> (Returned metadata, [Attempt attempt])
         | Rejects e \<Rightarrow>
             if rate_limited e \<and> attempt < maxRetries - 1 then
               (let (r, trace) = info_loop p inputFile maxRetries (attempt + 1) (Some e)
                in (r, [Attempt attempt, Warn, Delay (2 ^ attempt * 1000)] @ trace))
             else if \<not> rate_limited e \<or> attempt = maxRetries - 1 then
               (Threw (Error (Some (message_text e @ '' for file: '' @ inputFile))),
                [Attempt attempt])
             else
               (let (r, trace) = info_loop p inputFile maxRetries (attempt + 1) (Some e)
                in (r, Attempt attempt # trace)))
      else
        (Threw (Error (Some (''Failed to get PMTiles info after '' @ show_nat maxRetries @
                             '' attempts: '' @
                             (case lastError of None \<Rightarrow> ''Unknown error''
                              | Some e \<Rightarrow> errorMessage e)))), []))"
  by pat_completeness auto
termination
  by (relation "measure (\<lambda>(p, f, maxRetries, attempt, lastError). maxRetries - attempt)") auto

declare info_loop.simps [simp del]

definition getPMtilesInfo ::
  "pmtiles \<Rightarrow> string \<Rightarrow> nat \<Rightarrow> (string \<rightharpoonup> jsval) completion \<times> io list" where
  "getPMtilesInfo p inputFile maxRetries = info_loop p inputFile maxRetries 0 None"

section \<open>pmtiles\_adapter.js: getPMtilesTile\<close>

record tile =
  tile_data :: "nat list"
  tile_header :: "(string \<times> string) list"

definition tile_attempt :: "pmtiles \<Rightarrow> nat \<Rightarrow> nat \<Rightarrow> nat \<Rightarrow> nat \<Rightarrow> tile option outcome" where
  "tile_attempt p attempt z x y =
     (case getZxy p attempt z x y of
        Rejects e \<Rightarrow> Rejects e
      | Resolves None \<Rightarrow> Resolves None
      | Resolves (Some zxyTile) \<Rightarrow>
          (case data zxyTile of
             None \<Rightarrow> Resolves None
           | Some bytes \<Rightarrow>
               (case getHeader p attempt of
                  Rejects e \<Rightarrow> Rejects e
                | Resolves h \<Rightarrow>
                    Resolves (Some \<lparr>tile_data = bytes,
                                     tile_header = head (getPmtilesTileType (tileType h))\<rparr>))))"

function tile_loop ::
  "pmtiles \<Rightarrow> nat \<Rightarrow> nat \<Rightarrow> nat \<Rightarrow> nat \<Rightarrow> nat \<Rightarrow> tile option completion \<times> io list" where
  "tile_loop p z x y maxRetries attempt =
     (if attempt < maxRetries then
        (case tile_attempt p attempt z x y of
           Resolves r \<Rightarrow> (Returned r, [Attempt attempt])
         | Rejects e \<Rightarrow>
             if js_includes (errorMessage e) ''429'' \<and> attempt < maxRetries - 1 then
               (let (r, trace) = tile_loop p z x y maxRetries (attempt + 1)
                in (r, [Attempt attempt, Warn, Delay (2 ^ attempt * 1000)] @ trace))
             else if js_includes (errorMessage e) ''Bad response code:'' then
               (Returned None, [Attempt attempt, LogError])
             else
               (let (r, trace) = tile_loop p z x y maxRetries (attempt + 1)
                in (r, [Attempt attempt, LogError] @ trace)))
      else (Returned None, [LogError]))"
  by pat_completeness auto
termination
  by (relation "measure (\<lambda>(p, z, x, y, maxRetries, attempt). maxRetries - attempt)") auto

declare tile_loop.simps [simp del]

definition getPMtilesTile ::
  "pmtiles \<Rightarrow> nat \<Rightarrow> nat \<Rightarrow> nat \<Rightarrow> nat \<Rightarrow> tile option completion \<times> io list" where
  "getPMtilesTile p z x y maxRetries = tile_loop p z x y maxRetries 0"

text \<open>The attempts a run made and the delays it slept.\<close>

definition attempts :: "io list \<Rightarrow> nat" where
  "attempts trace = length (filter (\<lambda>i. case i of Attempt k \<Rightarrow> True | _ \<Rightarrow> False) trace)"

definition delays :: "io list \<Rightarrow> nat list" where
  "delays trace = concat (map (\<lambda>i. case i of Delay ms \<Rightarrow> [ms] | _ \<Rightarrow> []) trace)"

section \<open>pmtiles\_adapter.js: S3Source\<close>

text \<open>\<^verbatim>\<open>s.split(c)\<close> for a separator of one character: never empty, and the pieces
  joined by the separator give the string back.\<close>

fun split_on :: "char \<Rightarrow> string \<Rightarrow> string list" where
  "split_on c [] = [[]]"
| "split_on c (x # xs) =
     (if x = c then [] # split_on c xs
      else (case split_on c xs of [] \<Rightarrow> [[x]] | w # ws \<Rightarrow> (x # w) # ws))"

text \<open>
  What the process and the platform supply: the environment variable
  \<^verbatim>\<open>AWS_REGION\<close>, and \<^verbatim>\<open>new URLSearchParams(q).get(name)\<close> as a function of the
  query string and the name (\<open>None\<close> is \<^verbatim>\<open>null\<close>).
\<close>

record platform =
  AWS_REGION :: "string option"
  searchParam :: "string \<Rightarrow> string \<Rightarrow> string option"

text \<open>
  The three regular expressions of parseS3Url. Their groups are runs without a slash that
  a slash follows, so each group is the longest such run and matching never backtracks
  over a group boundary:
  \<^item> \<open>segment\<close> reads \<^verbatim>\<open>([^/]+)\/\<close> at the start of the text and gives the group and
    what follows the slash;
  \<^item> \<open>dotted\<close> is \<^verbatim>\<open>[^/]*\.[^/]+\<close> on a run without a slash: a dot that is not its last
    character;
  \<^item> \<open>to_end\<close> reads \<^verbatim>\<open>(.+)$\<close>: a non-empty rest without a line terminator (the dot does
    not match one, and there is no multiline flag).
\<close>

definition not_slash :: "char \<Rightarrow> bool" where
  "not_slash c = (c \<noteq> CHR ''/'')"

definition line_terminator :: "char \<Rightarrow> bool" where
  "line_terminator c = (c = CHR 0x0A \<or> c = CHR 0x0D)"

definition segment :: "string \<Rightarrow> (string \<times> string) option" where
  "segment s =
     (let g = takeWhile not_slash s; r = dropWhile not_slash s
      in if g \<noteq> [] \<and> r \<noteq> [] then Some (g, tl r) else None)"

definition dotted :: "string \<Rightarrow> bool" where
  "dotted g = (CHR ''.'' \<in> set (butlast g))"

definition to_end :: "string \<Rightarrow> string option" where
  "to_end s = (if s \<noteq> [] \<and> list_all (\<lambda>c. \<not> line_terminator c) s then Some s else None)"

text \<open>\<^verbatim>\<open>/^s3:\/\/([^/]*\.[^/]+)\/([^/]+)\/(.+)$/\<close>\<close>

definition customWithDot :: "string \<Rightarrow> (string \<times> string \<times> string) option" where
  "customWithDot s =
     (if startsWith s ''s3://'' then
        (case segment (drop 5 s) of
           None \<Rightarrow> None
         | Some (g1, r1) \<Rightarrow>
             if dotted g1 then
               (case segment r1 of
                  None \<Rightarrow> None
                | Some (g2, r2) \<Rightarrow>
                    (case to_end r2 of None \<Rightarrow> None | Some g3 \<Rightarrow> Some (g1, g2, g3)))
             else None)
      else None)"

text \<open>\<^verbatim>\<open>/^s3:\/\/([^/]+)\/([^/]+)\/(.+)$/\<close>\<close>

definition customForced :: "string \<Rightarrow> (string \<times> string \<times> string) option" where
  "customForced s =
     (if startsWith s ''s3://'' then
        (case segment (drop 5 s) of
           None \<Rightarrow> None
         | Some (g1, r1) \<Rightarrow>
             (case segment r1 of
                None \<Rightarrow> None
              | Some (g2, r2) \<Rightarrow>
                  (case to_end r2 of None \<Rightarrow> None | Some g3 \<Rightarrow> Some (g1, g2, g3))))
      else None)"

text \<open>\<^verbatim>\<open>/^s3:\/\/([^/]+)\/(.+)$/\<close>\<close>

definition aws :: "string \<Rightarrow> (string \<times> string) option" where
  "aws s =
     (if startsWith s ''s3://'' then
        (case segment (drop 5 s) of
           None \<Rightarrow> None
         | Some (g1, r1) \<Rightarrow> (case to_end r1 of None \<Rightarrow> None | Some g2 \<Rightarrow> Some (g1, g2)))
      else None)"

record s3_parsed =
  endpoint :: "string option"
  bucket :: string
  key :: string
  region :: string
  profile :: "string option"
  requestPayer :: bool

text \<open>\<^verbatim>\<open>process.env.AWS_REGION || 'us-east-1'\<close>\<close>

definition default_region :: "platform \<Rightarrow> string" where
  "default_region env =
     (case AWS_REGION env of None \<Rightarrow> ''us-east-1''
      | Some r \<Rightarrow> if r = [] then ''us-east-1'' else r)"

text \<open>The format hint after validation: a hint that is neither \<^verbatim>\<open>aws\<close> nor
  \<^verbatim>\<open>custom\<close> is dropped with a warning; the empty string is falsy and stays.\<close>

definition checked_format :: "string option \<Rightarrow> string option" where
  "checked_format s3UrlFormat =
     (case s3UrlFormat of
        None \<Rightarrow> None
      | Some f \<Rightarrow> if f \<noteq> [] \<and> f \<noteq> ''aws'' \<and> f \<noteq> ''custom'' then None else Some f)"

text \<open>\<^verbatim>\<open>const [cleanUrl, queryString] = url.split('?')\<close>: the text before the first
  question mark, and the text between the first and the second if there is one.\<close>

definition cleanUrl :: "string \<Rightarrow> string" where
  "cleanUrl url = (case split_on CHR ''?'' url of [] \<Rightarrow> [] | c # qs \<Rightarrow> c)"

definition queryString :: "string \<Rightarrow> string option" where
  "queryString url = (case split_on CHR ''?'' url of c # q # qs \<Rightarrow> Some q | _ \<Rightarrow> None)"

text \<open>A parameter of the location string: read only inside \<^verbatim>\<open>if (queryString)\<close>, that is
  when the query string is there and not empty.\<close>

definition url_param :: "platform \<Rightarrow> string \<Rightarrow> string \<Rightarrow> string option" where
  "url_param env url name =
     (case queryString url of
        None \<Rightarrow> None
      | Some q \<Rightarrow> if q = [] then None else searchParam env q name)"

definition buildResult ::
  "string \<Rightarrow> string option \<Rightarrow> bool \<Rightarrow> string option \<Rightarrow> string \<Rightarrow> string \<Rightarrow> s3_parsed" where
  "buildResult region' profile' requestPayer' endpoint' bucket' key' =
     \<lparr>endpoint = (case endpoint' of None \<Rightarrow> None
                   | Some e \<Rightarrow> if e = [] then None else Some (''https://'' @ e)),
      bucket = bucket', key = key', region = region', profile = profile',
      requestPayer = requestPayer'\<rparr>"

definition invalid_s3_url :: "string \<Rightarrow> js_error" where
  "invalid_s3_url url =
     Error (Some (''Invalid S3 URL format: '' @ url @ [CHR 0x0A] @
                  ''Expected formats:'' @ [CHR 0x0A] @
                  ''  AWS S3: s3://bucket-name/path/to/file.pmtiles'' @ [CHR 0x0A] @
                  ''  Custom endpoint: s3://endpoint.com/bucket/path/to/file.pmtiles'' @ [CHR 0x0A] @
                  ''Use s3UrlFormat parameter to override auto-detection if needed.''))"

definition parseS3Url :: "platform \<Rightarrow> string \<Rightarrow> string option \<Rightarrow> s3_parsed completion" where
  "parseS3Url env url s3UrlFormat =
     (let format0 = checked_format s3UrlFormat;
          profile' = url_param env url ''profile'';
          region' = (case url_param env url ''region'' of None \<Rightarrow> default_region env | Some r \<Rightarrow> r);
          format = (case format0 of None \<Rightarrow> url_param env url ''s3UrlFormat'' | Some f \<Rightarrow> Some f);
          payerVal = url_param env url ''requestPayer'';
          requestPayer' = (payerVal = Some ''true'' \<or> payerVal = Some ''1'');
          result = buildResult region' profile' requestPayer'
      in if format = Some ''custom'' then
           (case customForced (cleanUrl url) of
              Some (g1, g2, g3) \<Rightarrow> Returned (result (Some g1) g2 g3)
            | None \<Rightarrow> Threw (invalid_s3_url url))
         else if format = Some ''aws'' then
           (case aws (cleanUrl url) of
              Some (g1, g2) \<Rightarrow> Returned (result None g1 g2)
            | None \<Rightarrow> Threw (invalid_s3_url url))
         else
           (case customWithDot (cleanUrl url) of
              Some (g1, g2, g3) \<Rightarrow> Returned (result (Some g1) g2 g3)
            | None \<Rightarrow>
                (case aws (cleanUrl url) of
                   Some (g1, g2) \<Rightarrow> Returned (result None g1 g2)
                 | None \<Rightarrow> Threw (invalid_s3_url url))))"

text \<open>The client configuration that createS3Client builds.\<close>

record s3_client =
  client_region :: string
  forcePathStyle :: bool
  client_endpoint :: "string option"
  credentials :: "string option"

definition createS3Client :: "string option \<Rightarrow> string \<Rightarrow> string option \<Rightarrow> s3_client" where
  "createS3Client endpoint' region' profile' =
     \<lparr>client_region = region',
      forcePathStyle = (endpoint' \<noteq> None \<and> endpoint' \<noteq> Some []),
      client_endpoint = (if endpoint' \<noteq> None \<and> endpoint' \<noteq> Some [] then endpoint' else None),
      credentials = (if profile' \<noteq> None \<and> profile' \<noteq> Some [] then profile' else None)\<rparr>"

record s3_source =
  src_bucket :: string
  src_key :: string
  src_endpoint :: "string option"
  src_url :: string
  src_requestPayer :: bool
  src_region :: string
  src_profile :: "string option"
  s3Client :: s3_client

text \<open>
  The constructor. \<open>s3Profile\<close>, \<open>configRequestPayer\<close> and \<open>configRegion\<close> come from the
  caller's configuration, \<open>None\<close> when the argument is undefined. Strings are combined
  with \<^verbatim>\<open>||\<close> (an empty string counts as not set), the flag with \<^verbatim>\<open>??\<close>.
  \<open>src_profile\<close> is the local \<^verbatim>\<open>profile\<close> that goes to createS3Client.
\<close>

definition S3Source ::
  "platform \<Rightarrow> string \<Rightarrow> string option \<Rightarrow> bool option \<Rightarrow> string option \<Rightarrow> string option \<Rightarrow>
   s3_source completion" where
  "S3Source env s3Url s3Profile configRequestPayer configRegion s3UrlFormat =
     (case parseS3Url env s3Url s3UrlFormat of
        Threw e \<Rightarrow> Threw e
      | Returned parsed \<Rightarrow>
          (let profile' = (if s3Profile \<noteq> None \<and> s3Profile \<noteq> Some [] then s3Profile
                           else profile parsed);
               requestPayer' = (case configRequestPayer of None \<Rightarrow> requestPayer parsed | Some b \<Rightarrow> b);
               region' = (case configRegion of
                            None \<Rightarrow> region parsed
                          | Some r \<Rightarrow> if r = [] then region parsed else r)
           in Returned
                \<lparr>src_bucket = bucket parsed, src_key = key parsed, src_endpoint = endpoint parsed,
                 src_url = s3Url, src_requestPayer = requestPayer', src_region = region',
                 src_profile = profile',
                 s3Client = createS3Client (endpoint parsed) region' profile'\<rparr>))"

text \<open>
  A stand-in for the platform's query parser on query strings without percent escapes or
  plus signs: pairs are separated by \<open>&\<close>, a name from its value by the first \<open>=\<close>, and
  the first pair with the name wins.
\<close>

definition plain_pair :: "string \<Rightarrow> string \<times> string" where
  "plain_pair s = (takeWhile (\<lambda>c. c \<noteq> CHR ''='') s, drop 1 (dropWhile (\<lambda>c. c \<noteq> CHR ''='') s))"

definition plain_search_param :: "string \<Rightarrow> string \<Rightarrow> string option" where
  "plain_search_param q name =
     map_of (map plain_pair (filter (\<lambda>s. s \<noteq> []) (split_on CHR ''&'' q))) name"

definition node_env :: platform where
  "node_env = \<lparr>AWS_REGION = None, searchParam = plain_search_param\<rparr>"

section \<open>The platform's parseFloat\<close>

text \<open>
  \<^verbatim>\<open>parseFloat\<close> skips leading white space and reads the longest prefix that is a decimal
  literal: an optional sign, then \<^verbatim>\<open>Infinity\<close> or digits with an optional fraction and
  an optional exponent. No such prefix gives NaN. The result is the binary64 number nearest
  to the value of the literal.
\<close>

text \<open>
  Rounding to binary64, to nearest with ties to even. For a positive rational \<open>a\<close>,
  \<open>log2_floor a\<close> is the exponent \<open>e\<close> with \<open>2^e \<le> a < 2^(e+1)\<close>. The numbers of that
  binade are the multiples of \<open>2^(e-52)\<close>; below \<open>2^-1022\<close> the spacing stays
  \<open>2^-1074\<close>. A result of \<open>2^1024\<close> or more is infinite.
\<close>

definition pow2 :: "int \<Rightarrow> rat" where
  "pow2 e = (if 0 \<le> e then 2 ^ nat e else 1 / 2 ^ nat (- e))"

definition log2_floor :: "rat \<Rightarrow> int" where
  "log2_floor a =
     (let (n, d) = quotient_of a; e = bitlen n - bitlen d
      in if pow2 e \<le> a then e else e - 1)"

definition round_half_even :: "rat \<Rightarrow> int" where
  "round_half_even x =
     (let f = \<lfloor>x\<rfloor>; r = x - of_int f
      in if r < 1 / 2 then f else if 1 / 2 < r then f + 1 else if even f then f else f + 1)"

definition binary64 :: "rat \<Rightarrow> number" where
  "binary64 q =
     (if q = 0 then Finite 0
      else
        (let a = \<bar>q\<bar>;
             e = max (log2_floor a) (- 1022);
             ulp = pow2 (e - 52);
             v = of_int (round_half_even (a / ulp)) * ulp
         in if pow2 1024 \<le> v then (if 0 < q then PosInfinity else NegInfinity)
            else Finite (if 0 < q then v else - v)))"

definition white_space :: "char \<Rightarrow> bool" where
  "white_space c =
     (c = CHR 0x09 \<or> c = CHR 0x0A \<or> c = CHR 0x0B \<or> c = CHR 0x0C \<or> c = CHR 0x0D \<or>
      c = CHR 0x20 \<or> c = CHR 0xA0)"

definition is_digit :: "char \<Rightarrow> bool" where
  "is_digit c = (48 \<le> (of_char c :: nat) \<and> (of_char c :: nat) \<le> 57)"

definition digits_value :: "string \<Rightarrow> int" where
  "digits_value ds = foldl (\<lambda>n c. 10 * n + (of_char c - 48)) 0 ds"

text \<open>An optional sign: its factor and the text after it.\<close>

definition read_sign :: "string \<Rightarrow> int \<times> string" where
  "read_sign s =
     (case s of
        [] \<Rightarrow> (1, [])
      | c # cs \<Rightarrow> if c = CHR ''+'' then (1, cs) else if c = CHR ''-'' then (- 1, cs) else (1, s))"

text \<open>The exponent part after the mantissa: \<^verbatim>\<open>e\<close> or \<^verbatim>\<open>E\<close>, an optional sign and at
  least one digit; anything less is not part of the literal.\<close>

definition read_exponent :: "string \<Rightarrow> int" where
  "read_exponent s =
     (case s of
        [] \<Rightarrow> 0
      | c # cs \<Rightarrow>
          if c = CHR ''e'' \<or> c = CHR ''E'' then
            (let (sg, r) = read_sign cs; ds = takeWhile is_digit r
             in if ds = [] then 0 else sg * digits_value ds)
          else 0)"

definition scale10 :: "rat \<Rightarrow> int \<Rightarrow> rat" where
  "scale10 m e = (if 0 \<le> e then m * 10 ^ nat e else m / 10 ^ nat (- e))"

text \<open>The mathematical value of the longest prefix that is a decimal literal, before any
  rounding; NaN when there is no such prefix.\<close>

definition decimal_literal :: "string \<Rightarrow> number" where
  "decimal_literal str =
     (let (sg, s) = read_sign (dropWhile white_space str)
      in if startsWith s ''Infinity'' then (if sg = 1 then PosInfinity else NegInfinity)
         else
           (let ints = takeWhile is_digit s;
                r = dropWhile is_digit s;
                has_point = (case r of [] \<Rightarrow> False | c # cs \<Rightarrow> c = CHR ''.'');
                fracs = (if has_point then takeWhile is_digit (tl r) else []);
                r' = (if has_point then dropWhile is_digit (tl r) else r)
            in if ints = [] \<and> fracs = [] then NaN
               else Finite (of_int sg *
                      scale10 (of_int (digits_value (ints @ fracs)))
                              (read_exponent r' - int (length fracs)))))"

definition parseFloat :: "string \<Rightarrow> number" where
  "parseFloat str = (case decimal_literal str of Finite q \<Rightarrow> binary64 q | n \<Rightarrow> n)"

section \<open>Marker options\<close>

record marker =
  location :: "number \<times> number"
  icon :: string
  scale :: "rat option"
  offsetX :: "rat option"
  offsetY :: "rat option"

text \<open>\<^verbatim>\<open>!isNaN(scale) && scale > 0 && scale < 10\<close> and
  \<^verbatim>\<open>!isNaN(offset) && Math.abs(offset) < 1000\<close>: the number to store, if the test passes.\<close>

definition valid_scale :: "number \<Rightarrow> rat option" where
  "valid_scale n = (case n of Finite q \<Rightarrow> if 0 < q \<and> q < 10 then Some q else None | _ \<Rightarrow> None)"

definition valid_offset :: "number \<Rightarrow> rat option" where
  "valid_offset n = (case n of Finite q \<Rightarrow> if \<bar>q\<bar> < 1000 then Some q else None | _ \<Rightarrow> None)"

text \<open>One round of the loop of parseMarkerOptions: the marker after it and the warnings
  it prints. A split never gives an empty array, so the first piece of the offset is
  always there.\<close>

definition parseMarkerOption :: "string \<Rightarrow> marker \<Rightarrow> marker \<times> string list" where
  "parseMarkerOption options m =
     (case split_on CHR '':'' options of
        name # val # others \<Rightarrow>
          if name = ''scale'' then
            (case valid_scale (parseFloat val) of
               Some q \<Rightarrow> (m\<lparr>scale := Some q\<rparr>, [])
             | None \<Rightarrow> (m, [''Invalid marker scale: '' @ val]))
          else if name = ''offset'' then
            (case split_on CHR '','' val of
               [] \<Rightarrow> (m, [])
             | x # ys \<Rightarrow>
                 (let m1 = (case valid_offset (parseFloat x) of
                              Some q \<Rightarrow> m\<lparr>offsetX := Some q\<rparr>
                            | None \<Rightarrow> m)
                  in case ys of
                       [] \<Rightarrow> (m1, [])
                     | y # rest \<Rightarrow>
                         (case valid_offset (parseFloat y) of
                            Some q \<Rightarrow> (m1\<lparr>offsetY := Some q\<rparr>, [])
                          | None \<Rightarrow> (m1, []))))
          else (m, [''Unknown marker option: '' @ name])
      | _ \<Rightarrow> (m, []))"

fun parseMarkerOptions :: "string list \<Rightarrow> marker \<Rightarrow> marker \<times> string list" where
  "parseMarkerOptions [] m = (m, [])"
| "parseMarkerOptions (options # optionsList) m =
     (let (m1, w1) = parseMarkerOption options m;
          (m2, w2) = parseMarkerOptions optionsList m1
      in (m2, w1 @ w2))"

text \<open>What a run of the parser may do to a marker: each of the three optional fields
  is either left as it was or holds a number that passed the field's test, and location
  and icon stay.\<close>

definition kept_or_valid :: "marker \<Rightarrow> marker \<Rightarrow> bool" where
  "kept_or_valid m m' \<longleftrightarrow>
     (scale m' = scale m \<or> (\<exists>q. scale m' = Some q \<and> 0 < q \<and> q < 10)) \<and>
     (offsetX m' = offsetX m \<or> (\<exists>q. offsetX m' = Some q \<and> \<bar>q\<bar> < 1000)) \<and>
     (offsetY m' = offsetY m \<or> (\<exists>q. offsetY m' = Some q \<and> \<bar>q\<bar> < 1000)) \<and>
     location m' = location m \<and> icon m' = icon m"

text \<open>A marker as extractMarkersFromQuery hands it to the parser.\<close>

definition pin :: marker where
  "pin = \<lparr>location = (Finite (15 / 2), Finite 46), icon = ''pin.png'',
          scale = None, offsetX = None, offsetY = None\<rparr>"

section \<open>respondImage: the render call, its timeout and the composition\<close>

text \<open>
  The layers that are composited onto the raw render: the overlay buffer that
  renderOverlay drew from the paths and markers, the canvas of renderWatermark and the
  canvas of renderAttribution, the last two with the arguments they are drawn from.
\<close>

datatype layer =
  Overlay "nat list"
| Watermark nat nat nat string
| Attribution nat nat nat string

text \<open>The steps applied to the raw render, in the order respondImage calls them. The
  window of \<open>Extract\<close> comes from Mercator arithmetic and is left out.\<close>

datatype image_op = Extract | Resize nat nat | Composite "layer list" | ToFormat string

record image =
  raw :: "nat list"
  ops :: "image_op list"

text \<open>What respondImage holds in its closure when the render starts.\<close>

record render_job =
  overlay :: "nat list option"
  watermark :: "string option"
  staticAttributionText :: "string option"
  mode :: string
  zoom :: rat
  width :: nat
  height :: nat
  pixel_scale :: nat
  tileMargin :: nat
  format :: string

definition configured :: "string option \<Rightarrow> bool" where
  "configured s = (s \<noteq> None \<and> s \<noteq> Some [])"

text \<open>The array \<^verbatim>\<open>composites\<close>: three pushes, each under its own test.\<close>

definition composites :: "render_job \<Rightarrow> layer list" where
  "composites job =
     (case overlay job of None \<Rightarrow> [] | Some buf \<Rightarrow> [Overlay buf]) @
     (case watermark job of
        None \<Rightarrow> []
      | Some text \<Rightarrow>
          if text = [] then []
          else [Watermark (width job) (height job) (pixel_scale job) text]) @
     (case staticAttributionText job of
        None \<Rightarrow> []
      | Some text \<Rightarrow>
          if mode job = ''static'' \<and> text \<noteq> []
          then [Attribution (width job) (height job) (pixel_scale job) text]
          else [])"

definition build_image :: "render_job \<Rightarrow> nat list \<Rightarrow> image" where
  "build_image job pixels =
     \<lparr>raw = pixels,
      ops = (if 0 < zoom job \<and> 0 < tileMargin job then [Extract] else []) @
            (if zoom job = 0 \<and> width job = 256
             then [Resize (width job * pixel_scale job) (height job * pixel_scale job)] else []) @
            (if composites job \<noteq> [] then [Composite (composites job)] else []) @
            [ToFormat (format job)]\<rparr>"

text \<open>
  The response object and the pool as the callbacks see them: whether a response has gone
  out, the responses sent, the calls made on the pool for the checked-out renderer,
  whether the timer is still set, and the image whose encoding is under way.
\<close>

datatype body = Text string | Picture image

datatype pool_call = RemoveBadObject | Release

record exchange =
  headersSent :: bool
  responses :: "(nat \<times> body) list"
  pool_calls :: "pool_call list"
  timer_set :: bool
  encoding :: "image option"

definition send :: "nat \<Rightarrow> body \<Rightarrow> exchange \<Rightarrow> exchange" where
  "send status b s = s\<lparr>headersSent := True, responses := responses s @ [(status, b)]\<rparr>"

definition pool_call :: "pool_call \<Rightarrow> exchange \<Rightarrow> exchange" where
  "pool_call c s = s\<lparr>pool_calls := pool_calls s @ [c]\<rparr>"

text \<open>The callback of \<^verbatim>\<open>setTimeout\<close>; a cleared timer does not fire.\<close>

definition on_timeout :: "exchange \<Rightarrow> exchange" where
  "on_timeout s =
     (if timer_set s then
        (let s1 = pool_call RemoveBadObject (s\<lparr>timer_set := False\<rparr>)
         in if \<not> headersSent s1 then send 503 (Text ''Renderer timeout'') s1 else s1)
      else s)"

text \<open>The callback of \<^verbatim>\<open>renderer.render\<close>, with the error (if any) and the raw render.\<close>

definition on_render :: "render_job \<Rightarrow> string option \<Rightarrow> nat list \<Rightarrow> exchange \<Rightarrow> exchange" where
  "on_render job err pixels s =
     (let s1 = s\<lparr>timer_set := False\<rparr>
      in if headersSent s1 then s1
         else
           (case err of
              Some e \<Rightarrow>
                (let s2 = pool_call RemoveBadObject s1
                 in if \<not> headersSent s2 then send 500 (Text e) s2 else s2)
            | None \<Rightarrow> (pool_call Release s1)\<lparr>encoding := Some (build_image job pixels)\<rparr>))"

text \<open>The callback of \<^verbatim>\<open>image.toBuffer\<close>: \<open>ok\<close> is false when it reports an error or
  no buffer.\<close>

definition on_encoded :: "bool \<Rightarrow> exchange \<Rightarrow> exchange" where
  "on_encoded ok s =
     (case encoding s of
        None \<Rightarrow> s
      | Some img \<Rightarrow>
          (let s1 = s\<lparr>encoding := None\<rparr>
           in if \<not> ok then
                (if \<not> headersSent s1 then send 500 (Text ''Image processing failed'') s1 else s1)
              else if \<not> headersSent s1 then send 200 (Picture img) s1
              else s1))"

datatype event = TimerFired | RenderDone "string option" "nat list" | EncodeDone bool

fun handle :: "render_job \<Rightarrow> exchange \<Rightarrow> event \<Rightarrow> exchange" where
  "handle job s TimerFired = on_timeout s"
| "handle job s (RenderDone err pixels) = on_render job err pixels s"
| "handle job s (EncodeDone ok) = on_encoded ok s"

definition run :: "render_job \<Rightarrow> event list \<Rightarrow> exchange \<Rightarrow> exchange" where
  "run job evs s = foldl (handle job) s evs"

text \<open>
  The callback of \<^verbatim>\<open>pool.acquire\<close> up to the call of \<^verbatim>\<open>renderer.render\<close>: what the
  pool handed over, and whether the call of render throws at once.
\<close>

datatype acquired = AcquireError | NoRenderer | InvalidRenderer | Renderer

definition fresh :: exchange where
  "fresh = \<lparr>headersSent = False, responses = [], pool_calls = [], timer_set = False,
            encoding = None\<rparr>"

definition begin_render :: "acquired \<Rightarrow> bool \<Rightarrow> exchange" where
  "begin_render acq render_throws =
     (case acq of
        AcquireError \<Rightarrow> send 503 (Text ''Renderer pool error'') fresh
      | NoRenderer \<Rightarrow> send 503 (Text ''Renderer unavailable'') fresh
      | InvalidRenderer \<Rightarrow> send 503 (Text ''Renderer invalid'') (pool_call RemoveBadObject fresh)
      | Renderer \<Rightarrow>
          if render_throws
          then send 500 (Text ''Render failed'') (pool_call RemoveBadObject fresh)
          else fresh\<lparr>timer_set := True\<rparr>)"

text \<open>
  The native render answers after \<open>after_ms\<close> milliseconds, or never. The timer is set to
  30000 milliseconds; callbacks run one at a time, in the order in which they fall due,
  the timer first when both fall due together.
\<close>

record render_reply =
  after_ms :: nat
  render_error :: "string option"
  rendered :: "nat list"
  encoded_ok :: bool

definition RENDER_TIMEOUT :: nat where
  "RENDER_TIMEOUT = 30000"

definition timeline :: "render_reply option \<Rightarrow> event list" where
  "timeline reply =
     (case reply of
        None \<Rightarrow> [TimerFired]
      | Some r \<Rightarrow>
          if after_ms r < RENDER_TIMEOUT
          then [RenderDone (render_error r) (rendered r), EncodeDone (encoded_ok r), TimerFired]
          else [TimerFired, RenderDone (render_error r) (rendered r), EncodeDone (encoded_ok r)])"

definition respondImage :: "render_job \<Rightarrow> render_reply option \<Rightarrow> exchange" where
  "respondImage job reply = run job (timeline reply) (begin_render Renderer False)"

text \<open>At most one response has gone out, and \<open>headersSent\<close> says whether one has.\<close>

definition answered_once :: "exchange \<Rightarrow> bool" where
  "answered_once s \<longleftrightarrow>
     (headersSent s \<longleftrightarrow> responses s \<noteq> []) \<and> length (responses s) \<le> 1"

text \<open>The place of a layer in the fixed order.\<close>

fun layer_rank :: "layer \<Rightarrow> nat" where
  "layer_rank (Overlay buf) = 0"
| "layer_rank (Watermark w h s text) = 1"
| "layer_rank (Attribution w h s text) = 2"

text \<open>A static request with an overlay, a watermark and an attribution text.\<close>

definition static_job :: render_job where
  "static_job =
     \<lparr>overlay = Some [1, 2], watermark = Some ''(c) maps'', staticAttributionText = Some ''OSM'',
      mode = ''static'', zoom = 3, width = 512, height = 512, pixel_scale = 1, tileMargin = 0,
      format = ''png''\<rparr>"

section \<open>The renderer's request callback: tiles of a registered archive\<close>

text \<open>
  What the request callback hands to the renderer: nothing at all (\<^verbatim>\<open>callback()\<close>, the
  tile is absent on purpose), an error, or a response. The data of a response is \<open>None\<close>
  when the property is undefined.
\<close>

record response =
  resp_data :: "nat list option"
  resp_modified :: "string option"

datatype reply = Absent | Failed js_error | Reply response

text \<open>
  The colour parser and the image encoder are external: \<open>parse_color\<close> is
  \<^verbatim>\<open>new Color(color).array()\<close>, and \<open>encode_pixel format array channels\<close> is the buffer
  that sharp makes of the one-pixel raw image in the given format; each may fail.
\<close>

record codec =
  parse_color :: "string \<Rightarrow> js_error + rat list"
  encode_pixel :: "string \<Rightarrow> rat list \<Rightarrow> nat \<Rightarrow> js_error + nat list"

text \<open>createEmptyResponse, with the module's cache \<^verbatim>\<open>cachedEmptyResponses\<close> passed in and
  returned. \<open>format'\<close> and \<open>color'\<close> are \<open>None\<close> when undefined.\<close>

definition createEmptyResponse ::
  "codec \<Rightarrow> (string \<rightharpoonup> nat list) \<Rightarrow> string option \<Rightarrow> string option \<Rightarrow>
   reply \<times> (string \<rightharpoonup> nat list)" where
  "createEmptyResponse cd cache format' color' =
     (if format' = None \<or> format' = Some [] \<or> format' = Some ''pbf'' then
        (Reply \<lparr>resp_data = cache [], resp_modified = None\<rparr>, cache)
      else
        (let fmt = (if format' = Some ''jpg'' then ''jpeg'' else the format');
             col = (case color' of None \<Rightarrow> ''rgba(255,255,255,0)''
                    | Some c \<Rightarrow> if c = [] then ''rgba(255,255,255,0)'' else c);
             cacheKey = fmt @ '','' @ col
         in case cache cacheKey of
              Some buffer \<Rightarrow> (Reply \<lparr>resp_data = Some buffer, resp_modified = None\<rparr>, cache)
            | None \<Rightarrow>
                (case parse_color cd col of
                   Inl e \<Rightarrow> (Failed e, cache)
                 | Inr array \<Rightarrow>
                     (let channels = (if length array = 4 \<and> fmt \<noteq> ''jpeg'' then 4 else 3 :: nat)
                      in case encode_pixel cd fmt array channels of
                           Inl e \<Rightarrow> (Failed e, cache)
                         | Inr buffer \<Rightarrow>
                             (Reply \<lparr>resp_data = Some buffer, resp_modified = None\<rparr>,
                              cache(cacheKey \<mapsto> buffer))))))"

text \<open>The cache as the module creates it.\<close>

definition cachedEmptyResponses :: "string \<rightharpoonup> nat list" where
  "cachedEmptyResponses = [[] \<mapsto> []]"

text \<open>
  A registered source: the archive and its type are stored together, under the name of
  the style source. An MBTiles archive answers \<^verbatim>\<open>getTile\<close> with an error or with data
  and headers.
\<close>

record mbtiles =
  getTile :: "nat \<Rightarrow> nat \<Rightarrow> nat \<Rightarrow> js_error + (nat list \<times> (string \<times> string) list)"

datatype source = PMTilesSource pmtiles | MBTilesSource mbtiles

record fetched =
  fetched_data :: "nat list"
  fetched_headers :: "(string \<times> string) list"

text \<open>utils.js, fetchTileData: \<open>None\<close> is \<^verbatim>\<open>null\<close>, or \<^verbatim>\<open>undefined\<close> for a source that is
  not registered; the caller tests \<^verbatim>\<open>== null\<close>.\<close>

definition fetchTileData :: "source option \<Rightarrow> nat \<Rightarrow> nat \<Rightarrow> nat \<Rightarrow> fetched option completion" where
  "fetchTileData src z x y =
     (case src of
        Some (PMTilesSource p) \<Rightarrow>
          (case fst (getPMtilesTile p z x y 3) of
             Threw e \<Rightarrow> Threw e
           | Returned None \<Rightarrow> Returned None
           | Returned (Some tileinfo) \<Rightarrow>
               Returned (Some \<lparr>fetched_data = tile_data tileinfo,
                                fetched_headers = tile_header tileinfo\<rparr>))
      | Some (MBTilesSource m) \<Rightarrow>
          (case getTile m z x y of
             Inl err \<Rightarrow> Returned None
           | Inr (tileData, tileHeader) \<Rightarrow>
               Returned (Some \<lparr>fetched_data = tileData, fetched_headers = tileHeader\<rparr>))
      | None \<Rightarrow> Returned None)"

text \<open>The entry of a source in the style: the sparse flag of the data configuration and
  the format and background colour the archive declares.\<close>

record source_info =
  info_sparse :: "bool option"
  info_format :: "string option"
  info_color :: "string option"

record style_map =
  sources :: "string \<rightharpoonup> source"
  styleSources :: "string \<rightharpoonup> source_info"

text \<open>The request, taken apart: \<^verbatim>\<open>pmtiles://{sourceId}/{z}/{x}/{y}.{format}\<close>.\<close>

record tile_request =
  req_sourceId :: string
  req_z :: nat
  req_x :: nat
  req_y :: nat
  req_format :: "string option"

record helpers =
  gunzipP :: "nat list \<Rightarrow> js_error + nat list"
  dataDecoratorFunc :: "(string \<Rightarrow> nat list \<Rightarrow> nat \<Rightarrow> nat \<Rightarrow> nat \<Rightarrow> nat list) option"

text \<open>
  The branch of the request callback for the protocols \<^verbatim>\<open>mbtiles\<close> and \<^verbatim>\<open>pmtiles\<close>.
  \<open>Returned r\<close>: the callback was called with \<open>r\<close>. \<open>Threw e\<close>: the asynchronous function
  rejected and the callback was not called.
\<close>

definition request_tile ::
  "codec \<Rightarrow> helpers \<Rightarrow> style_map \<Rightarrow> (string \<rightharpoonup> nat list) \<Rightarrow> tile_request \<Rightarrow>
   reply completion \<times> (string \<rightharpoonup> nat list)" where
  "request_tile cd hp m cache rq =
     (case fetchTileData (sources m (req_sourceId rq)) (req_z rq) (req_x rq) (req_y rq) of
        Threw e \<Rightarrow> (Threw e, cache)
      | Returned None \<Rightarrow>
          (case styleSources m (req_sourceId rq) of
             None \<Rightarrow>
               (Threw (Error (Some ''Cannot read properties of undefined (reading 'sparse')'')), cache)
           | Some sourceInfo \<Rightarrow>
               if info_sparse sourceInfo = Some True then (Returned Absent, cache)
               else
                 (let (r, cache') = createEmptyResponse cd cache (info_format sourceInfo)
                                      (info_color sourceInfo)
                  in (Returned r, cache')))
      | Returned (Some fetchTile) \<Rightarrow>
          (let modified = (case map_of (fetched_headers fetchTile) ''Last-Modified'' of
                             None \<Rightarrow> None
                           | Some v \<Rightarrow> if v = [] then None else Some v)
           in if req_format rq = Some ''pbf'' then
                (case (if take 2 (fetched_data fetchTile) = [0x1f, 0x8b]
                       then gunzipP hp (fetched_data fetchTile)
                       else Inr (fetched_data fetchTile)) of
                   Inl e \<Rightarrow> (Threw e, cache)
                 | Inr bytes \<Rightarrow>
                     (Returned (Reply \<lparr>resp_data =
                                  Some (case dataDecoratorFunc hp of
                                          None \<Rightarrow> bytes
                                        | Some f \<Rightarrow> f (req_sourceId rq) bytes (req_z rq) (req_x rq)
                                                     (req_y rq)),
                                resp_modified = modified\<rparr>), cache))
              else
                (Returned (Reply \<lparr>resp_data = Some (fetched_data fetchTile),
                                   resp_modified = modified\<rparr>), cache)))"

section \<open>Example archives\<close>

text \<open>An archive whose header reports all-zero bounds and a center zoom of zero, and an
  archive that answers every call with the same header and an empty metadata object.\<close>

definition zero_bounds_header :: header where
  "zero_bounds_header =
     \<lparr>tileType = 1, minZoom = 0, maxZoom = 14,
      minLon = Num (Finite 0), minLat = Num (Finite 0), maxLon = Num (Finite 0), maxLat = Num (Finite 0),
      centerLon = Num (Finite 7), centerLat = Num (Finite 46), centerZoom = Num (Finite 0)\<rparr>"

definition steady_archive :: "header \<Rightarrow> pmtiles" where
  "steady_archive h =
     \<lparr>getHeader = (\<lambda>k. Resolves h),
      getMetadata = (\<lambda>k. Resolves Map.empty),
      getZxy = (\<lambda>k z x y. Resolves None)\<rparr>"

text \<open>An archive every call to which rejects with the given message, and one whose first
  tile read fails with a connection reset while every later one delivers three bytes.\<close>

definition rejecting :: "string \<Rightarrow> pmtiles" where
  "rejecting msg =
     \<lparr>getHeader = (\<lambda>k. Rejects (Error (Some msg))),
      getMetadata = (\<lambda>k. Rejects (Error (Some msg))),
      getZxy = (\<lambda>k z x y. Rejects (Error (Some msg)))\<rparr>"

definition flaky_archive :: pmtiles where
  "flaky_archive =
     \<lparr>getHeader = (\<lambda>k. Resolves zero_bounds_header),
      getMetadata = (\<lambda>k. Resolves Map.empty),
      getZxy = (\<lambda>k z x y. if k = 0 then Rejects (Error (Some ''ECONNRESET''))
                           else Resolves (Some \<lparr>data = Some [1, 2, 3]\<rparr>))\<rparr>"

text \<open>A codec that knows any colour as transparent white and writes the channel count, a
  style with a sparse source, a dense raster source and a dense vector source over the same
  empty archive, and a request.\<close>

definition one_pixel_codec :: codec where
  "one_pixel_codec =
     \<lparr>parse_color = (\<lambda>c. Inr [255, 255, 255, 0]),
      encode_pixel = (\<lambda>f array channels. Inr [channels])\<rparr>"

definition plain_helpers :: helpers where
  "plain_helpers = \<lparr>gunzipP = (\<lambda>d. Inr d), dataDecoratorFunc = None\<rparr>"

definition three_sources :: style_map where
  "three_sources =
     \<lparr>sources = [''sparse'' \<mapsto> PMTilesSource (steady_archive zero_bounds_header),
                  ''dense'' \<mapsto> PMTilesSource (steady_archive zero_bounds_header),
                  ''vector'' \<mapsto> PMTilesSource (steady_archive zero_bounds_header)],
      styleSources = [''sparse'' \<mapsto> \<lparr>info_sparse = Some True, info_format = Some ''png'',
                                      info_color = None\<rparr>,
                       ''dense'' \<mapsto> \<lparr>info_sparse = None, info_format = Some ''png'',
                                     info_color = Some ''white''\<rparr>,
                       ''vector'' \<mapsto> \<lparr>info_sparse = Some False, info_format = Some ''pbf'',
                                      info_color = None\<rparr>]\<rparr>"

definition tile_of :: "string \<Rightarrow> tile_request" where
  "tile_of name = \<lparr>req_sourceId = name, req_z = 3, req_x = 4, req_y = 5, req_format = Some ''png''\<rparr>"

section \<open>Properties of the retry loops\<close>

lemma info_loop_Returned:
  "fst (info_loop p f n a lastError) = Returned md \<Longrightarrow>
   \<exists>k h m. a \<le> k \<and> k < n \<and> getHeader p k = Resolves h \<and> getMetadata p k = Resolves m \<and> md = fill_metadata h m"
proof (induction p f n a lastError rule: info_loop.induct)
  case (1 p f n a lastError)
  show ?case
  proof (cases "a < n")
    case False
    with "1.prems" show ?thesis by (simp add: info_loop.simps [of p f n a lastError])
  next
    case lt: True
    show ?thesis
    proof (cases "info_attempt p a")
      case (Resolves m')
      with lt "1.prems" have "md = m'" by (simp add: info_loop.simps [of p f n a lastError])
      with Resolves lt show ?thesis
        by (auto simp: info_attempt_def split: outcome.splits)
    next
      case (Rejects e)
      show ?thesis
      proof (cases "rate_limited e \<and> a < n - 1")
        case True
        with lt Rejects "1.prems" have "fst (info_loop p f n (a + 1) (Some e)) = Returned md"
          by (simp add: info_loop.simps [of p f n a lastError] split: prod.splits)
        from "1.IH"(1) [OF lt Rejects True this] obtain k h m where
          "a + 1 \<le> k" "k < n" "getHeader p k = Resolves h" "getMetadata p k = Resolves m"
          "md = fill_metadata h m" by blast
        then have "a \<le> k \<and> k < n \<and> getHeader p k = Resolves h \<and>
          getMetadata p k = Resolves m \<and> md = fill_metadata h m" by simp
        then show ?thesis by blast
      next
        case False
        with lt Rejects "1.prems" show ?thesis
          by (auto simp add: info_loop.simps [of p f n a lastError] split: prod.splits if_splits)
      qed
    qed
  qed
qed

lemma tile_loop_never_throws: "\<exists>r. fst (tile_loop p z x y n a) = Returned r"
proof (induction p z x y n a rule: tile_loop.induct)
  case (1 p z x y n a)
  show ?case
  proof (cases "a < n")
    case False
    then show ?thesis by (simp add: tile_loop.simps [of p z x y n a])
  next
    case lt: True
    show ?thesis
    proof (cases "tile_attempt p a z x y")
      case (Resolves r)
      with lt show ?thesis by (simp add: tile_loop.simps [of p z x y n a])
    next
      case (Rejects e)
      with lt "1.IH" show ?thesis
        by (auto simp add: tile_loop.simps [of p z x y n a] split: prod.splits)
    qed
  qed
qed

lemma getPMtilesTile_never_throws: "\<exists>r. fst (getPMtilesTile p z x y n) = Returned r"
  unfolding getPMtilesTile_def by (rule tile_loop_never_throws)

lemma tile_loop_rate_limited:
  assumes "\<forall>k<n. \<exists>e. tile_attempt p k z x y = Rejects e \<and> js_includes (errorMessage e) ''429'' \<and>
             \<not> js_includes (errorMessage e) ''Bad response code:''"
    and "a < n"
  shows "tile_loop p z x y n a =
           (Returned None,
            concat (map (\<lambda>k. [Attempt k, Warn, Delay (2 ^ k * 1000)]) [a..<n - 1]) @
            [Attempt (n - 1), LogError, LogError])"
  using assms
proof (induction p z x y n a rule: tile_loop.induct)
  case (1 p z x y n a)
  from "1.prems" obtain e where e: "tile_attempt p a z x y = Rejects e"
    "js_includes (errorMessage e) ''429''" "\<not> js_includes (errorMessage e) ''Bad response code:''"
    by blast
  show ?case
  proof (cases "a < n - 1")
    case True
    then have "a + 1 < n" by simp
    from "1.IH"(1) [OF "1.prems"(2) e(1) _ "1.prems"(1) this] e True
    have ih: "tile_loop p z x y n (a + 1) =
           (Returned None,
            concat (map (\<lambda>k. [Attempt k, Warn, Delay (2 ^ k * 1000)]) [a + 1..<n - 1]) @
            [Attempt (n - 1), LogError, LogError])"
      by simp
    have "[a..<n - 1] = a # [a + 1..<n - 1]" using True by (simp add: upt_conv_Cons)
    with ih e True "1.prems"(2) show ?thesis
      by (simp add: tile_loop.simps [of p z x y n a])
  next
    case False
    with "1.prems"(2) have a: "a = n - 1" by simp
    then have u: "[a..<n - 1] = []" by simp
    from a "1.prems"(2) have "a + 1 = n" by simp
    then have last: "tile_loop p z x y n (a + 1) = (Returned None, [LogError])"
      by (simp add: tile_loop.simps [of p z x y n n])
    have "tile_loop p z x y n a =
        (let (r, trace) = tile_loop p z x y n (a + 1) in (r, [Attempt a, LogError] @ trace))"
      using e "1.prems"(2) False by (subst tile_loop.simps) simp
    with last show ?thesis unfolding u by (simp add: a)
  qed
qed

lemma getPMtilesTile_bad_response:
  assumes "0 < n" and "tile_attempt p 0 z x y = Rejects e"
    and "\<not> js_includes (errorMessage e) ''429''"
    and "js_includes (errorMessage e) ''Bad response code:''"
  shows "getPMtilesTile p z x y n = (Returned None, [Attempt 0, LogError])"
  using assms by (simp add: getPMtilesTile_def tile_loop.simps [of p z x y n 0])

lemma tile_loop_all_fail:
  assumes "\<forall>k<n. \<exists>e. tile_attempt p k z x y = Rejects e"
  shows "fst (tile_loop p z x y n a) = Returned None"
  using assms
proof (induction p z x y n a rule: tile_loop.induct)
  case (1 p z x y n a)
  show ?case
  proof (cases "a < n")
    case False
    then show ?thesis by (simp add: tile_loop.simps [of p z x y n a])
  next
    case lt: True
    with "1.prems" obtain e where e: "tile_attempt p a z x y = Rejects e" by blast
    with lt "1.IH" "1.prems" show ?thesis
      by (auto simp add: tile_loop.simps [of p z x y n a] case_prod_beta)
  qed
qed

lemma getPMtilesInfo_no_retry:
  assumes "0 < n" and "info_attempt p 0 = Rejects e" and "\<not> rate_limited e"
  shows "getPMtilesInfo p f n =
           (Threw (Error (Some (message_text e @ '' for file: '' @ f))), [Attempt 0])"
  using assms by (simp add: getPMtilesInfo_def info_loop.simps [of p f n 0 None])

lemma info_loop_rate_limited:
  assumes "\<forall>k<n. \<exists>e. info_attempt p k = Rejects e \<and> rate_limited e" and "a < n"
  shows "snd (info_loop p f n a lastError) =
           concat (map (\<lambda>k. [Attempt k, Warn, Delay (2 ^ k * 1000)]) [a..<n - 1]) @ [Attempt (n - 1)]"
  using assms
proof (induction p f n a lastError rule: info_loop.induct)
  case (1 p f n a lastError)
  from "1.prems" obtain e where e: "info_attempt p a = Rejects e" "rate_limited e" by blast
  show ?case
  proof (cases "a < n - 1")
    case True
    then have "a + 1 < n" by simp
    from "1.IH"(1) [OF "1.prems"(2) e(1) _ "1.prems"(1) this] e True
    have ih: "snd (info_loop p f n (a + 1) (Some e)) =
      concat (map (\<lambda>k. [Attempt k, Warn, Delay (2 ^ k * 1000)]) [a + 1..<n - 1]) @ [Attempt (n - 1)]"
      by simp
    have "[a..<n - 1] = a # [a + 1..<n - 1]" using True by (simp add: upt_conv_Cons)
    with ih e True "1.prems"(2) show ?thesis
      by (simp add: info_loop.simps [of p f n a lastError] case_prod_beta)
  next
    case False
    with "1.prems"(2) have a: "a = n - 1" by simp
    then have "[a..<n - 1] = []" by simp
    with e "1.prems"(2) False a show ?thesis
      by (subst info_loop.simps) simp
  qed
qed

text \<open>
  Claim C5. When the header of the archive reports all-zero bounds, or one of the four
  bounds fields is not a number, the metadata that getPMtilesInfo returns has the bounds
  \<open>[-180, -85.05112877980659, 180, 85.0511287798066]\<close>, which are the spec's
  \<open>[-180, -85.0511288, 180, 85.0511288]\<close> to the seven decimals it prints; the
  all-zero value is not passed through.
\<close>

theorem getPMtilesInfo_default_bounds:
  assumes "fst (getPMtilesInfo p inputFile maxRetries) = Returned md"
    and "\<forall>k h. getHeader p k = Resolves h \<longrightarrow>
           (minLon h = Num (Finite 0) \<and> minLat h = Num (Finite 0) \<and>
            maxLon h = Num (Finite 0) \<and> maxLat h = Num (Finite 0)) \<or>
           \<not> is_number (minLon h) \<or> \<not> is_number (minLat h) \<or>
           \<not> is_number (maxLon h) \<or> \<not> is_number (maxLat h)"
  shows "md ''bounds'' = Some (Arr world_bounds) \<and>
         md ''bounds'' \<noteq> Some (Arr [Num (Finite 0), Num (Finite 0), Num (Finite 0), Num (Finite 0)]) \<and>
         world_bounds = [Num (Finite (- 180)), Num (Finite (- 8505112877980659 / 10 ^ 14)),
                         Num (Finite 180), Num (Finite (850511287798066 / 10 ^ 13))] \<and>
         \<bar>- 8505112877980659 / 10 ^ 14 - (- 850511288 / 10 ^ 7 :: rat)\<bar> < 5 / 10 ^ 8 \<and>
         \<bar>850511287798066 / 10 ^ 13 - (850511288 / 10 ^ 7 :: rat)\<bar> < 5 / 10 ^ 8"
proof -
  from assms(1) obtain k h m where k: "getHeader p k = Resolves h" and md: "md = fill_metadata h m"
    unfolding getPMtilesInfo_def by (blast dest: info_loop_Returned)
  from assms(2) k have "\<not> hasBounds h" by (auto simp: hasBounds_def is_zero_def)
  then have b: "md ''bounds'' = Some (Arr world_bounds)"
    by (simp add: md fill_metadata_def Let_def)
  from b show ?thesis by (simp add: world_bounds_def)
qed

theorem getPMtilesInfo_default_bounds_witness:
  "fst (getPMtilesInfo (steady_archive zero_bounds_header) ''world.pmtiles'' 3) =
     Returned (fill_metadata zero_bounds_header Map.empty) \<and>
   fill_metadata zero_bounds_header Map.empty ''bounds'' = Some (Arr world_bounds)"
proof -
  have h1: "fst (getPMtilesInfo (steady_archive zero_bounds_header) ''world.pmtiles'' 3) =
     Returned (fill_metadata zero_bounds_header Map.empty)"
    by (simp add: getPMtilesInfo_def info_loop.simps [of _ _ 3 0 None] info_attempt_def steady_archive_def)
  have h2: "\<forall>k h. getHeader (steady_archive zero_bounds_header) k = Resolves h \<longrightarrow>
           (minLon h = Num (Finite 0) \<and> minLat h = Num (Finite 0) \<and>
            maxLon h = Num (Finite 0) \<and> maxLat h = Num (Finite 0)) \<or>
           \<not> is_number (minLon h) \<or> \<not> is_number (minLat h) \<or>
           \<not> is_number (maxLon h) \<or> \<not> is_number (maxLat h)"
    by (simp add: steady_archive_def zero_bounds_header_def)
  from getPMtilesInfo_default_bounds [OF h1 h2] h1 show ?thesis by simp
qed

text \<open>
  Claim C10. A header whose center zoom is exactly 0 is treated like one without a center
  zoom: the returned center is (centerLon, centerLat, maxZoom / 2), since the test on
  \<open>centerZoom\<close> is a truthiness test.
\<close>

theorem getPMtilesInfo_center_zoom_zero:
  assumes "fst (getPMtilesInfo p inputFile maxRetries) = Returned md"
    and "\<forall>k h. getHeader p k = Resolves h \<longrightarrow> centerZoom h = Num (Finite 0)"
  shows "\<exists>k<maxRetries. \<exists>h. getHeader p k = Resolves h \<and>
           md ''center'' = Some (Arr [centerLon h, centerLat h, Num (Finite (of_nat (maxZoom h) / 2))])"
proof -
  from assms(1) obtain k h m where k: "k < maxRetries" "getHeader p k = Resolves h"
    and md: "md = fill_metadata h m"
    unfolding getPMtilesInfo_def by (blast dest: info_loop_Returned)
  from assms(2) k have "\<not> truthy (centerZoom h)" by simp
  then have "md ''center'' = Some (Arr [centerLon h, centerLat h, Num (Finite (of_nat (maxZoom h) / 2))])"
    by (simp add: md fill_metadata_def Let_def parseInt_nat_def)
  with k show ?thesis by blast
qed

theorem getPMtilesInfo_center_zoom_zero_witness:
  "fst (getPMtilesInfo (steady_archive zero_bounds_header) ''world.pmtiles'' 3) =
     Returned (fill_metadata zero_bounds_header Map.empty) \<and>
   fill_metadata zero_bounds_header Map.empty ''center'' =
     Some (Arr [Num (Finite 7), Num (Finite 46), Num (Finite 7)])"
proof -
  have h1: "fst (getPMtilesInfo (steady_archive zero_bounds_header) ''world.pmtiles'' 3) =
     Returned (fill_metadata zero_bounds_header Map.empty)"
    by (simp add: getPMtilesInfo_def info_loop.simps [of _ _ 3 0 None] info_attempt_def steady_archive_def)
  have h2: "\<forall>k h. getHeader (steady_archive zero_bounds_header) k = Resolves h \<longrightarrow>
              centerZoom h = Num (Finite 0)"
    by (simp add: steady_archive_def zero_bounds_header_def)
  from getPMtilesInfo_center_zoom_zero [OF h1 h2] h1 show ?thesis
    by (auto simp: steady_archive_def zero_bounds_header_def)
qed

text \<open>
  Claim C1, at an input where the code departs from it. Every call on the archive fails
  with a message that has no \<open>429\<close> in it. getPMtilesInfo makes one attempt and throws;
  getPMtilesTile makes three attempts, with no delay between them, before it returns no
  tile.
\<close>

theorem getPMtilesTile_retries_other_failures:
  "\<not> js_includes ''ECONNRESET'' ''429'' \<and>
   snd (getPMtilesInfo (rejecting ''ECONNRESET'') ''world.pmtiles'' 3) = [Attempt 0] \<and>
   getPMtilesTile (rejecting ''ECONNRESET'') 0 0 0 3 =
     (Returned None, [Attempt 0, LogError, Attempt 1, LogError, Attempt 2, LogError, LogError]) \<and>
   attempts (snd (getPMtilesTile (rejecting ''ECONNRESET'') 0 0 0 3)) = 3 \<and>
   delays (snd (getPMtilesTile (rejecting ''ECONNRESET'') 0 0 0 3)) = []"
  by code_simp

text \<open>
  Claim C8, at an input where the code departs from it. The first tile read fails with a
  connection reset, which is not a rate limit; getPMtilesTile logs it, reads again and
  returns the tile of the second attempt instead of no tile.
\<close>

theorem getPMtilesTile_tile_after_other_failure:
  "getPMtilesTile flaky_archive 0 0 0 3 =
     (Returned (Some \<lparr>tile_data = [1, 2, 3],
                        tile_header = [(''Content-Type'', ''application/x-protobuf'')]\<rparr>),
      [Attempt 0, LogError, Attempt 1])"
  by code_simp

section \<open>Properties of parseS3Url and S3Source\<close>

lemma split_on_absent: "c \<notin> set s \<Longrightarrow> split_on c s = [s]"
  by (induction s) auto

lemma cleanUrl_plain: "CHR ''?'' \<notin> set s \<Longrightarrow> cleanUrl s = s"
  by (simp add: cleanUrl_def split_on_absent)

lemma queryString_plain: "CHR ''?'' \<notin> set s \<Longrightarrow> queryString s = None"
  by (simp add: queryString_def split_on_absent)

lemma url_param_plain: "CHR ''?'' \<notin> set s \<Longrightarrow> url_param env s name = None"
  by (simp add: url_param_def queryString_plain)

lemma segment_append:
  "g \<noteq> [] \<Longrightarrow> CHR ''/'' \<notin> set g \<Longrightarrow> segment (g @ CHR ''/'' # r) = Some (g, r)"
proof -
  assume g: "g \<noteq> []" "CHR ''/'' \<notin> set g"
  then have "takeWhile not_slash (g @ CHR ''/'' # r) = g"
    by (subst takeWhile_append2) (auto simp: not_slash_def)
  moreover from g have "dropWhile not_slash (g @ CHR ''/'' # r) = CHR ''/'' # r"
    by (subst dropWhile_append2) (auto simp: not_slash_def)
  ultimately show ?thesis using g by (simp add: segment_def)
qed

lemma dotted_nonempty: "dotted g \<Longrightarrow> g \<noteq> []"
  by (auto simp: dotted_def)

lemma to_end_valid: "k \<noteq> [] \<Longrightarrow> \<not> list_ex line_terminator k \<Longrightarrow> to_end k = Some k"
  by (auto simp: to_end_def list_all_iff list_ex_iff)

lemma startsWith_s3: "startsWith (''s3://'' @ r) ''s3://''"
  by (simp add: startsWith_def)

lemma customWithDot_endpoint_form:
  assumes "CHR ''/'' \<notin> set h" "dotted h" "b \<noteq> []" "CHR ''/'' \<notin> set b"
    "k \<noteq> []" "\<not> list_ex line_terminator k"
  shows "customWithDot (''s3://'' @ h @ ''/'' @ b @ ''/'' @ k) = Some (h, b, k)"
proof -
  have s: "startsWith (''s3://'' @ h @ ''/'' @ b @ ''/'' @ k) ''s3://''" by (rule startsWith_s3)
  have d: "drop 5 (''s3://'' @ h @ ''/'' @ b @ ''/'' @ k) = h @ CHR ''/'' # (b @ CHR ''/'' # k)" by simp
  from assms show ?thesis
    unfolding customWithDot_def d
    by (simp add: startsWith_def segment_append dotted_nonempty to_end_valid)
qed

lemma aws_plain_form:
  assumes "b \<noteq> []" "CHR ''/'' \<notin> set b" "k \<noteq> []" "\<not> list_ex line_terminator k"
  shows "aws (''s3://'' @ b @ ''/'' @ k) = Some (b, k)"
proof -
  have s: "startsWith (''s3://'' @ b @ ''/'' @ k) ''s3://''" by (rule startsWith_s3)
  have d: "drop 5 (''s3://'' @ b @ ''/'' @ k) = b @ CHR ''/'' # k" by simp
  from assms show ?thesis
    unfolding aws_def d
    by (simp add: startsWith_def segment_append to_end_valid)
qed

lemma customWithDot_plain_form:
  assumes "b \<noteq> []" "CHR ''/'' \<notin> set b"
    and "\<not> (dotted b \<and> (\<exists>g r. segment k = Some (g, r) \<and> r \<noteq> []))"
  shows "customWithDot (''s3://'' @ b @ ''/'' @ k) = None"
proof -
  have s: "startsWith (''s3://'' @ b @ ''/'' @ k) ''s3://''" by (rule startsWith_s3)
  have d: "drop 5 (''s3://'' @ b @ ''/'' @ k) = b @ CHR ''/'' # k" by simp
  have seg: "segment (b @ CHR ''/'' # k) = Some (b, k)" using assms(1,2) by (rule segment_append)
  show ?thesis
  proof (cases "dotted b")
    case False
    then show ?thesis unfolding customWithDot_def d by (simp add: s seg)
  next
    case True
    with assms(3) have "segment k = None \<or> (\<exists>g. segment k = Some (g, []))"
      by (cases "segment k") auto
    then show ?thesis unfolding customWithDot_def d
      by (auto simp: s seg True to_end_def)
  qed
qed

lemma parseS3Url_plain_auto:
  assumes "CHR ''?'' \<notin> set (u :: string)"
  shows "parseS3Url env u None =
     (case customWithDot u of
        Some (g1, g2, g3) \<Rightarrow> Returned (buildResult (default_region env) None False (Some g1) g2 g3)
      | None \<Rightarrow> (case aws u of
          Some (g1, g2) \<Rightarrow> Returned (buildResult (default_region env) None False None g1 g2)
        | None \<Rightarrow> Threw (invalid_s3_url u)))"
  using assms
  by (simp add: parseS3Url_def checked_format_def url_param_plain cleanUrl_plain Let_def
        split: option.splits)

lemma parseS3Url_plain_aws:
  assumes "CHR ''?'' \<notin> set (u :: string)"
  shows "parseS3Url env u (Some ''aws'') =
     (case aws u of
          Some (g1, g2) \<Rightarrow> Returned (buildResult (default_region env) None False None g1 g2)
        | None \<Rightarrow> Threw (invalid_s3_url u))"
  using assms
  by (simp add: parseS3Url_def checked_format_def url_param_plain cleanUrl_plain Let_def
        split: option.splits)

text \<open>
  Claim C3, as amended. With auto-detection and no query string, a location
  \<open>s3://h/b/k\<close> whose first component \<open>h\<close> has a dot before its last character is read
  as an endpoint form: the endpoint is \<open>https://h\<close>, the bucket \<open>b\<close> and the key \<open>k\<close>.
  A location \<open>s3://b/k\<close> is read as bucket \<open>b\<close> and key \<open>k\<close> unless it also has the
  endpoint form, that is unless \<open>b\<close> has such a dot and \<open>k\<close> has a slash after a
  non-empty first segment and before a non-empty rest; with the format hint \<open>aws\<close> it is
  read so in every case. The hostname pattern is tried before the plain one.
\<close>

theorem parseS3Url_round_trip:
  assumes "b \<noteq> []" "CHR ''/'' \<notin> set b" "CHR ''?'' \<notin> set b"
    and "k \<noteq> []" "CHR ''?'' \<notin> set k" "\<not> list_ex line_terminator k"
  shows "(CHR ''/'' \<notin> set h \<and> CHR ''?'' \<notin> set h \<and> dotted h \<longrightarrow>
            parseS3Url env (''s3://'' @ h @ ''/'' @ b @ ''/'' @ k) None =
              Returned \<lparr>endpoint = Some (''https://'' @ h), bucket = b, key = k,
                         region = default_region env, profile = None, requestPayer = False\<rparr>) \<and>
         (\<not> (dotted b \<and> (\<exists>g r. segment k = Some (g, r) \<and> r \<noteq> [])) \<longrightarrow>
            parseS3Url env (''s3://'' @ b @ ''/'' @ k) None =
              Returned \<lparr>endpoint = None, bucket = b, key = k,
                         region = default_region env, profile = None, requestPayer = False\<rparr>) \<and>
         parseS3Url env (''s3://'' @ b @ ''/'' @ k) (Some ''aws'') =
              Returned \<lparr>endpoint = None, bucket = b, key = k,
                         region = default_region env, profile = None, requestPayer = False\<rparr>"
proof (intro conjI impI)
  assume h: "CHR ''/'' \<notin> set h \<and> CHR ''?'' \<notin> set h \<and> dotted h"
  with assms have q: "CHR ''?'' \<notin> set (''s3://'' @ h @ ''/'' @ b @ ''/'' @ k)" by simp
  from h assms have "customWithDot (''s3://'' @ h @ ''/'' @ b @ ''/'' @ k) = Some (h, b, k)"
    by (intro customWithDot_endpoint_form) simp_all
  with h show "parseS3Url env (''s3://'' @ h @ ''/'' @ b @ ''/'' @ k) None =
              Returned \<lparr>endpoint = Some (''https://'' @ h), bucket = b, key = k,
                         region = default_region env, profile = None, requestPayer = False\<rparr>"
    by (simp only: parseS3Url_plain_auto [OF q] option.case prod.case buildResult_def)
       (auto dest: dotted_nonempty)
next
  from assms have q: "CHR ''?'' \<notin> set (''s3://'' @ b @ ''/'' @ k)" by simp
  have a: "aws (''s3://'' @ b @ ''/'' @ k) = Some (b, k)"
    using assms by (intro aws_plain_form) simp_all
  {
    assume "\<not> (dotted b \<and> (\<exists>g r. segment k = Some (g, r) \<and> r \<noteq> []))"
    with assms have "customWithDot (''s3://'' @ b @ ''/'' @ k) = None"
      by (intro customWithDot_plain_form) simp_all
    with a show "parseS3Url env (''s3://'' @ b @ ''/'' @ k) None =
              Returned \<lparr>endpoint = None, bucket = b, key = k,
                         region = default_region env, profile = None, requestPayer = False\<rparr>"
      by (simp only: parseS3Url_plain_auto [OF q] option.case prod.case buildResult_def)
  }
  from a show "parseS3Url env (''s3://'' @ b @ ''/'' @ k) (Some ''aws'') =
              Returned \<lparr>endpoint = None, bucket = b, key = k,
                         region = default_region env, profile = None, requestPayer = False\<rparr>"
    by (simp only: parseS3Url_plain_aws [OF q] option.case prod.case buildResult_def)
qed

theorem parseS3Url_round_trip_witness:
  "parseS3Url node_env ''s3://minio.example.com/maps/tiles/world.pmtiles'' None =
     Returned \<lparr>endpoint = Some ''https://minio.example.com'', bucket = ''maps'',
                key = ''tiles/world.pmtiles'', region = ''us-east-1'', profile = None,
                requestPayer = False\<rparr> \<and>
   parseS3Url node_env ''s3://maps/tiles/world.pmtiles'' None =
     Returned \<lparr>endpoint = None, bucket = ''maps'', key = ''tiles/world.pmtiles'',
                region = ''us-east-1'', profile = None, requestPayer = False\<rparr> \<and>
   parseS3Url node_env ''s3://maps/tiles/world.pmtiles'' (Some ''aws'') =
     Returned \<lparr>endpoint = None, bucket = ''maps'', key = ''tiles/world.pmtiles'',
                region = ''us-east-1'', profile = None, requestPayer = False\<rparr>"
proof -
  have b: "''maps'' \<noteq> []" "CHR ''/'' \<notin> set ''maps''" "CHR ''?'' \<notin> set ''maps''" by simp_all
  have k: "''tiles/world.pmtiles'' \<noteq> []" "CHR ''?'' \<notin> set ''tiles/world.pmtiles''"
    "\<not> list_ex line_terminator ''tiles/world.pmtiles''"
    by (simp_all add: line_terminator_def)
  have h: "CHR ''/'' \<notin> set ''minio.example.com'' \<and> CHR ''?'' \<notin> set ''minio.example.com'' \<and>
    dotted ''minio.example.com''"
    by (simp add: dotted_def)
  have nb: "\<not> (dotted ''maps'' \<and> (\<exists>g r. segment ''tiles/world.pmtiles'' = Some (g, r) \<and> r \<noteq> []))"
    by (simp add: dotted_def)
  have r: "default_region node_env = ''us-east-1''"
    by (simp add: default_region_def node_env_def)
  from parseS3Url_round_trip [OF b k, of "''minio.example.com''" node_env] h nb r
  show ?thesis by simp
qed

text \<open>
  Claim C3 as stated fails for a bucket name with a dot: the location built from the
  bucket \<open>my.bucket\<close> and the key \<open>tiles/world.pmtiles\<close> is read as endpoint
  \<open>https://my.bucket\<close>, bucket \<open>tiles\<close> and key \<open>world.pmtiles\<close>.
\<close>

theorem parseS3Url_dotted_bucket_counterexample:
  "parseS3Url node_env (''s3://'' @ ''my.bucket'' @ ''/'' @ ''tiles/world.pmtiles'') None =
     Returned \<lparr>endpoint = Some ''https://my.bucket'', bucket = ''tiles'',
                key = ''world.pmtiles'', region = ''us-east-1'', profile = None,
                requestPayer = False\<rparr> \<and>
   parseS3Url node_env (''s3://'' @ ''my.bucket'' @ ''/'' @ ''tiles/world.pmtiles'') None \<noteq>
     Returned \<lparr>endpoint = None, bucket = ''my.bucket'', key = ''tiles/world.pmtiles'',
                region = ''us-east-1'', profile = None, requestPayer = False\<rparr>"
  by code_simp

lemma S3Source_Returned:
  assumes "S3Source env url s3Profile configRequestPayer configRegion s3UrlFormat = Returned src"
  shows "\<exists>parsed. parseS3Url env url s3UrlFormat = Returned parsed \<and>
           src_profile src = (if s3Profile \<noteq> None \<and> s3Profile \<noteq> Some [] then s3Profile else profile parsed) \<and>
           src_requestPayer src = (case configRequestPayer of None \<Rightarrow> requestPayer parsed | Some b \<Rightarrow> b) \<and>
           src_region src = (case configRegion of None \<Rightarrow> region parsed
                             | Some r \<Rightarrow> if r = [] then region parsed else r)"
  using assms by (auto simp: S3Source_def Let_def split: completion.splits)

lemma parseS3Url_Returned:
  assumes "parseS3Url env url s3UrlFormat = Returned parsed"
  shows "profile parsed = url_param env url ''profile'' \<and>
         region parsed = (case url_param env url ''region'' of None \<Rightarrow> default_region env | Some r \<Rightarrow> r) \<and>
         requestPayer parsed = (url_param env url ''requestPayer'' = Some ''true'' \<or>
                                url_param env url ''requestPayer'' = Some ''1'')"
  using assms
  by (auto simp: parseS3Url_def Let_def buildResult_def split: if_splits option.splits)

text \<open>
  Claim C4. For each of region, profile and requestPayer on its own: a value the caller's
  configuration supplies wins over the value in the query string of the location, which
  wins over the default (the environment's region or \<open>us-east-1\<close>, no profile, no
  requester-pays). A supplied string is a non-empty one; the flag is taken whenever it is
  supplied, so an explicit \<open>false\<close> overrides \<open>requestPayer=true\<close> in the location.
\<close>

theorem S3Source_precedence:
  assumes "S3Source env url s3Profile configRequestPayer configRegion s3UrlFormat = Returned src"
  shows "(\<forall>r. configRegion = Some r \<and> r \<noteq> [] \<longrightarrow> src_region src = r) \<and>
         (\<forall>u. (configRegion = None \<or> configRegion = Some []) \<and> url_param env url ''region'' = Some u \<longrightarrow>
               src_region src = u) \<and>
         ((configRegion = None \<or> configRegion = Some []) \<and> url_param env url ''region'' = None \<longrightarrow>
               src_region src = default_region env) \<and>
         (\<forall>p. s3Profile = Some p \<and> p \<noteq> [] \<longrightarrow> src_profile src = Some p) \<and>
         (s3Profile = None \<or> s3Profile = Some [] \<longrightarrow> src_profile src = url_param env url ''profile'') \<and>
         (\<forall>b. configRequestPayer = Some b \<longrightarrow> src_requestPayer src = b) \<and>
         (configRequestPayer = None \<longrightarrow>
            src_requestPayer src = (url_param env url ''requestPayer'' = Some ''true'' \<or>
                                    url_param env url ''requestPayer'' = Some ''1''))"
proof -
  from S3Source_Returned [OF assms] obtain parsed where
    p: "parseS3Url env url s3UrlFormat = Returned parsed"
    and s: "src_profile src = (if s3Profile \<noteq> None \<and> s3Profile \<noteq> Some [] then s3Profile else profile parsed)"
      "src_requestPayer src = (case configRequestPayer of None \<Rightarrow> requestPayer parsed | Some b \<Rightarrow> b)"
      "src_region src = (case configRegion of None \<Rightarrow> region parsed
                             | Some r \<Rightarrow> if r = [] then region parsed else r)"
    by blast
  note q = parseS3Url_Returned [OF p]
  show ?thesis
    using s q by (auto split: option.splits)
qed

theorem S3Source_precedence_witness:
  "S3Source node_env ''s3://maps/world.pmtiles?region=eu-west-1&requestPayer=true&profile=prod''
     (Some ''cfg'') (Some False) (Some ''ap-south-1'') None =
     Returned \<lparr>src_bucket = ''maps'', src_key = ''world.pmtiles'', src_endpoint = None,
       src_url = ''s3://maps/world.pmtiles?region=eu-west-1&requestPayer=true&profile=prod'',
       src_requestPayer = False, src_region = ''ap-south-1'', src_profile = Some ''cfg'',
       s3Client = \<lparr>client_region = ''ap-south-1'', forcePathStyle = False,
                    client_endpoint = None, credentials = Some ''cfg''\<rparr>\<rparr> \<and>
   S3Source node_env ''s3://maps/world.pmtiles?region=eu-west-1&requestPayer=true&profile=prod''
     None None None None =
     Returned \<lparr>src_bucket = ''maps'', src_key = ''world.pmtiles'', src_endpoint = None,
       src_url = ''s3://maps/world.pmtiles?region=eu-west-1&requestPayer=true&profile=prod'',
       src_requestPayer = True, src_region = ''eu-west-1'', src_profile = Some ''prod'',
       s3Client = \<lparr>client_region = ''eu-west-1'', forcePathStyle = False,
                    client_endpoint = None, credentials = Some ''prod''\<rparr>\<rparr> \<and>
   S3Source node_env ''s3://maps/world.pmtiles'' None None None None =
     Returned \<lparr>src_bucket = ''maps'', src_key = ''world.pmtiles'', src_endpoint = None,
       src_url = ''s3://maps/world.pmtiles'',
       src_requestPayer = False, src_region = ''us-east-1'', src_profile = None,
       s3Client = \<lparr>client_region = ''us-east-1'', forcePathStyle = False,
                    client_endpoint = None, credentials = None\<rparr>\<rparr>"
proof -
  let ?u = "''s3://maps/world.pmtiles?region=eu-west-1&requestPayer=true&profile=prod''"
  let ?a = "\<lparr>src_bucket = ''maps'', src_key = ''world.pmtiles'', src_endpoint = None,
       src_url = ?u,
       src_requestPayer = False, src_region = ''ap-south-1'', src_profile = Some ''cfg'',
       s3Client = \<lparr>client_region = ''ap-south-1'', forcePathStyle = False,
                    client_endpoint = None, credentials = Some ''cfg''\<rparr>\<rparr>"
  let ?b = "\<lparr>src_bucket = ''maps'', src_key = ''world.pmtiles'', src_endpoint = None,
       src_url = ?u,
       src_requestPayer = True, src_region = ''eu-west-1'', src_profile = Some ''prod'',
       s3Client = \<lparr>client_region = ''eu-west-1'', forcePathStyle = False,
                    client_endpoint = None, credentials = Some ''prod''\<rparr>\<rparr>"
  let ?c = "\<lparr>src_bucket = ''maps'', src_key = ''world.pmtiles'', src_endpoint = None,
       src_url = ''s3://maps/world.pmtiles'',
       src_requestPayer = False, src_region = ''us-east-1'', src_profile = None,
       s3Client = \<lparr>client_region = ''us-east-1'', forcePathStyle = False,
                    client_endpoint = None, credentials = None\<rparr>\<rparr>"
  have a: "S3Source node_env ?u (Some ''cfg'') (Some False) (Some ''ap-south-1'') None = Returned ?a"
    by code_simp
  have b: "S3Source node_env ?u None None None None = Returned ?b"
    by code_simp
  have c: "S3Source node_env ''s3://maps/world.pmtiles'' None None None None = Returned ?c"
    by code_simp
  have pa: "url_param node_env ?u ''region'' = Some ''eu-west-1''"
    "url_param node_env ?u ''requestPayer'' = Some ''true''"
    "url_param node_env ?u ''profile'' = Some ''prod''"
    "url_param node_env ''s3://maps/world.pmtiles'' ''region'' = None"
    "default_region node_env = ''us-east-1''"
    by code_simp+
  from S3Source_precedence [OF a] S3Source_precedence [OF b] S3Source_precedence [OF c] pa
  have "src_region ?a = ''ap-south-1'' \<and> src_profile ?a = Some ''cfg'' \<and> src_requestPayer ?a = False \<and>
        src_region ?b = ''eu-west-1'' \<and> src_profile ?b = Some ''prod'' \<and> src_requestPayer ?b = True \<and>
        src_region ?c = ''us-east-1''"
    by simp
  with a b c show ?thesis by simp
qed

section \<open>Properties of parseMarkerOptions\<close>

lemma split_on_append: "c \<notin> set a \<Longrightarrow> split_on c (a @ c # r) = a # split_on c r"
  by (induction a) auto

lemma valid_scale_Some: "valid_scale n = Some q \<longleftrightarrow> n = Finite q \<and> 0 < q \<and> q < 10"
  by (auto simp: valid_scale_def split: number.splits)

lemma valid_offset_Some: "valid_offset n = Some q \<longleftrightarrow> n = Finite q \<and> \<bar>q\<bar> < 1000"
  by (auto simp: valid_offset_def split: number.splits)

lemma parseMarkerOption_scale:
  assumes "CHR '':'' \<notin> set v"
  shows "fst (parseMarkerOption (''scale:'' @ v) m) =
           (case valid_scale (parseFloat v) of Some q \<Rightarrow> m\<lparr>scale := Some q\<rparr> | None \<Rightarrow> m)"
proof -
  have "split_on CHR '':'' (''scale:'' @ v) = [''scale'', v]"
    using split_on_append [of "CHR '':''" "''scale''" v] assms by (simp add: split_on_absent)
  then show ?thesis by (simp add: parseMarkerOption_def split: option.splits)
qed

lemma parseMarkerOption_offset:
  assumes "CHR '':'' \<notin> set vx" "CHR '','' \<notin> set vx" "CHR '':'' \<notin> set vy" "CHR '','' \<notin> set vy"
  shows "fst (parseMarkerOption (''offset:'' @ vx @ '','' @ vy) m) =
           (let m1 = (case valid_offset (parseFloat vx) of Some q \<Rightarrow> m\<lparr>offsetX := Some q\<rparr> | None \<Rightarrow> m)
            in case valid_offset (parseFloat vy) of Some q \<Rightarrow> m1\<lparr>offsetY := Some q\<rparr> | None \<Rightarrow> m1)"
proof -
  have "split_on CHR '':'' (''offset:'' @ vx @ '','' @ vy) = [''offset'', vx @ '','' @ vy]"
    using split_on_append [of "CHR '':''" "''offset''" "vx @ '','' @ vy"] assms
    by (simp add: split_on_absent)
  moreover have "split_on CHR '','' (vx @ '','' @ vy) = [vx, vy]"
    using split_on_append [of "CHR '',''" vx vy] assms by (simp add: split_on_absent)
  ultimately show ?thesis by (simp add: parseMarkerOption_def Let_def split: option.splits)
qed

lemma parseMarkerOption_kept_or_valid: "kept_or_valid m (fst (parseMarkerOption options m))"
  by (auto simp: parseMarkerOption_def kept_or_valid_def Let_def valid_scale_Some valid_offset_Some
      split: list.splits option.splits)

lemma kept_or_valid_trans: "kept_or_valid a b \<Longrightarrow> kept_or_valid b c \<Longrightarrow> kept_or_valid a c"
  by (auto simp: kept_or_valid_def)

lemma parseMarkerOptions_kept_or_valid: "kept_or_valid m (fst (parseMarkerOptions optionsList m))"
proof (induction optionsList arbitrary: m)
  case Nil
  show ?case by (simp add: kept_or_valid_def)
next
  case (Cons options optionsList)
  have "kept_or_valid m (fst (parseMarkerOption options m))"
    by (rule parseMarkerOption_kept_or_valid)
  moreover have "kept_or_valid (fst (parseMarkerOption options m))
     (fst (parseMarkerOptions optionsList (fst (parseMarkerOption options m))))"
    by (rule Cons.IH)
  ultimately show ?case
    by (auto simp: case_prod_beta Let_def intro: kept_or_valid_trans)
qed

lemma binary64_eval:
  assumes "q \<noteq> 0" and "max (log2_floor \<bar>q\<bar>) (- 1022) = e"
    and "round_half_even (\<bar>q\<bar> / pow2 (e - 52)) = n"
    and "of_int n * pow2 (e - 52) = v" and "v < pow2 1024"
  shows "binary64 q = (if 0 < q then Finite v else Finite (- v))"
proof -
  define a where "a = \<bar>q\<bar>"
  have "binary64 q =
      (let e = max (log2_floor a) (- 1022); ulp = pow2 (e - 52);
           v = of_int (round_half_even (a / ulp)) * ulp
       in if pow2 1024 \<le> v then (if 0 < q then PosInfinity else NegInfinity)
          else Finite (if 0 < q then v else - v))"
    using assms(1) unfolding binary64_def a_def by (simp only: if_False Let_def)
  also have "\<dots> = (if 0 < q then Finite v else Finite (- v))"
    using assms(2-5) unfolding a_def [symmetric] by (simp add: Let_def not_le)
  finally show ?thesis .
qed

lemma pow2_1024: "pow2 1024 = 2 ^ 1024"
  by (simp add: pow2_def)

lemma parseFloat_abc: "parseFloat ''abc'' = NaN"
proof -
  have "decimal_literal ''abc'' = NaN" by code_simp
  then show ?thesis by (simp add: parseFloat_def)
qed

lemma parseFloat_2: "parseFloat ''2'' = Finite 2"
proof -
  have d: "decimal_literal ''2'' = Finite (2)"
    by code_simp
  have "binary64 (2) = (if 0 < (2 :: rat) then Finite (2) else Finite (- (2)))"
  proof (rule binary64_eval)
    show "(2 :: rat) \<noteq> 0" by simp
    show "max (log2_floor \<bar>2\<bar>) (- 1022) = 1" by code_simp
    show "round_half_even (\<bar>2\<bar> / pow2 (1 - 52)) = 4503599627370496" by code_simp
    show "of_int 4503599627370496 * pow2 (1 - 52) = (2 :: rat)" by code_simp
    show "(2 :: rat) < pow2 1024" unfolding pow2_1024 by simp
  qed
  with d show ?thesis by (simp add: parseFloat_def)
qed

lemma parseFloat_10: "parseFloat ''10'' = Finite 10"
proof -
  have d: "decimal_literal ''10'' = Finite (10)"
    by code_simp
  have "binary64 (10) = (if 0 < (10 :: rat) then Finite (10) else Finite (- (10)))"
  proof (rule binary64_eval)
    show "(10 :: rat) \<noteq> 0" by simp
    show "max (log2_floor \<bar>10\<bar>) (- 1022) = 3" by code_simp
    show "round_half_even (\<bar>10\<bar> / pow2 (3 - 52)) = 5629499534213120" by code_simp
    show "of_int 5629499534213120 * pow2 (3 - 52) = (10 :: rat)" by code_simp
    show "(10 :: rat) < pow2 1024" unfolding pow2_1024 by simp
  qed
  with d show ?thesis by (simp add: parseFloat_def)
qed

lemma parseFloat_minus_5: "parseFloat ''-5'' = Finite (- 5)"
proof -
  have d: "decimal_literal ''-5'' = Finite (- 5)"
    by code_simp
  have "binary64 (- 5) = (if 0 < (- 5 :: rat) then Finite (5) else Finite (- (5)))"
  proof (rule binary64_eval)
    show "(- 5 :: rat) \<noteq> 0" by simp
    show "max (log2_floor \<bar>- 5\<bar>) (- 1022) = 2" by code_simp
    show "round_half_even (\<bar>- 5\<bar> / pow2 (2 - 52)) = 5629499534213120" by code_simp
    show "of_int 5629499534213120 * pow2 (2 - 52) = (5 :: rat)" by code_simp
    show "(5 :: rat) < pow2 1024" unfolding pow2_1024 by simp
  qed
  with d show ?thesis by (simp add: parseFloat_def)
qed

lemma parseFloat_20: "parseFloat ''20'' = Finite 20"
proof -
  have d: "decimal_literal ''20'' = Finite (20)"
    by code_simp
  have "binary64 (20) = (if 0 < (20 :: rat) then Finite (20) else Finite (- (20)))"
  proof (rule binary64_eval)
    show "(20 :: rat) \<noteq> 0" by simp
    show "max (log2_floor \<bar>20\<bar>) (- 1022) = 4" by code_simp
    show "round_half_even (\<bar>20\<bar> / pow2 (4 - 52)) = 5629499534213120" by code_simp
    show "of_int 5629499534213120 * pow2 (4 - 52) = (20 :: rat)" by code_simp
    show "(20 :: rat) < pow2 1024" unfolding pow2_1024 by simp
  qed
  with d show ?thesis by (simp add: parseFloat_def)
qed

lemma parseFloat_half: "parseFloat ''0.5'' = Finite (1 / 2)"
proof -
  have d: "decimal_literal ''0.5'' = Finite (1 / 2)"
    by code_simp
  have "binary64 (1 / 2) = (if 0 < (1 / 2 :: rat) then Finite (1 / 2) else Finite (- (1 / 2)))"
  proof (rule binary64_eval)
    show "(1 / 2 :: rat) \<noteq> 0" by simp
    show "max (log2_floor \<bar>1 / 2\<bar>) (- 1022) = - 1" by code_simp
    show "round_half_even (\<bar>1 / 2\<bar> / pow2 (- 1 - 52)) = 4503599627370496" by code_simp
    show "of_int 4503599627370496 * pow2 (- 1 - 52) = (1 / 2 :: rat)" by code_simp
    show "(1 / 2 :: rat) < pow2 1024" unfolding pow2_1024 by simp
  qed
  with d show ?thesis by (simp add: parseFloat_def)
qed

lemma parseFloat_1000: "parseFloat ''1000'' = Finite 1000"
proof -
  have d: "decimal_literal ''1000'' = Finite (1000)"
    by code_simp
  have "binary64 (1000) = (if 0 < (1000 :: rat) then Finite (1000) else Finite (- (1000)))"
  proof (rule binary64_eval)
    show "(1000 :: rat) \<noteq> 0" by simp
    show "max (log2_floor \<bar>1000\<bar>) (- 1022) = 9" by code_simp
    show "round_half_even (\<bar>1000\<bar> / pow2 (9 - 52)) = 8796093022208000" by code_simp
    show "of_int 8796093022208000 * pow2 (9 - 52) = (1000 :: rat)" by code_simp
    show "(1000 :: rat) < pow2 1024" unfolding pow2_1024 by simp
  qed
  with d show ?thesis by (simp add: parseFloat_def)
qed

lemma parseFloat_rounds_to_10: "parseFloat ''9.9999999999999999999'' = Finite 10"
proof -
  have d: "decimal_literal ''9.9999999999999999999'' = Finite (99999999999999999999 / 10000000000000000000)"
    by code_simp
  have "binary64 (99999999999999999999 / 10000000000000000000) = (if 0 < (99999999999999999999 / 10000000000000000000 :: rat) then Finite (10) else Finite (- (10)))"
  proof (rule binary64_eval)
    show "(99999999999999999999 / 10000000000000000000 :: rat) \<noteq> 0" by simp
    show "max (log2_floor \<bar>99999999999999999999 / 10000000000000000000\<bar>) (- 1022) = 3" by code_simp
    show "round_half_even (\<bar>99999999999999999999 / 10000000000000000000\<bar> / pow2 (3 - 52)) = 5629499534213120" by code_simp
    show "of_int 5629499534213120 * pow2 (3 - 52) = (10 :: rat)" by code_simp
    show "(10 :: rat) < pow2 1024" unfolding pow2_1024 by simp
  qed
  with d show ?thesis by (simp add: parseFloat_def)
qed

lemma parseFloat_rounds_to_1000: "parseFloat ''999.99999999999999999'' = Finite 1000"
proof -
  have d: "decimal_literal ''999.99999999999999999'' = Finite (99999999999999999999 / 100000000000000000)"
    by code_simp
  have "binary64 (99999999999999999999 / 100000000000000000) = (if 0 < (99999999999999999999 / 100000000000000000 :: rat) then Finite (1000) else Finite (- (1000)))"
  proof (rule binary64_eval)
    show "(99999999999999999999 / 100000000000000000 :: rat) \<noteq> 0" by simp
    show "max (log2_floor \<bar>99999999999999999999 / 100000000000000000\<bar>) (- 1022) = 9" by code_simp
    show "round_half_even (\<bar>99999999999999999999 / 100000000000000000\<bar> / pow2 (9 - 52)) = 8796093022208000" by code_simp
    show "of_int 8796093022208000 * pow2 (9 - 52) = (1000 :: rat)" by code_simp
    show "(1000 :: rat) < pow2 1024" unfolding pow2_1024 by simp
  qed
  with d show ?thesis by (simp add: parseFloat_def)
qed

lemma parseMarkerOptions_scale_and_offset:
  "fst (parseMarkerOptions (drop 2 (split_on CHR ''|'' ''7.5,46|pin.png|scale:2|offset:10,-5'')) m) =
     m\<lparr>scale := Some 2, offsetX := Some 10, offsetY := Some (- 5)\<rparr>"
proof -
  have l: "drop 2 (split_on CHR ''|'' ''7.5,46|pin.png|scale:2|offset:10,-5'') = [''scale:2'', ''offset:10,-5'']"
    by code_simp
  note p = parseFloat_2 parseFloat_10 parseFloat_minus_5
  have s: "fst (parseMarkerOption ''scale:2'' m) = m\<lparr>scale := Some 2\<rparr>" for m
    using parseMarkerOption_scale [of "''2''" m] by (simp add: p valid_scale_def)
  have o: "fst (parseMarkerOption ''offset:10,-5'' m) = m\<lparr>offsetX := Some 10, offsetY := Some (- 5)\<rparr>" for m
    using parseMarkerOption_offset [of "''10''" "''-5''" m] by (simp add: p valid_offset_def)
  show ?thesis unfolding l by (simp add: case_prod_beta s o)
qed

lemma parseMarkerOptions_scale_20: "fst (parseMarkerOptions [''scale:20''] m) = m"
proof -
  note p = parseFloat_20
  have "fst (parseMarkerOption ''scale:20'' m) = m"
    using parseMarkerOption_scale [of "''20''" m] by (simp add: p valid_scale_def)
  then show ?thesis by (simp add: case_prod_beta)
qed

lemma parseMarkerOptions_rounded:
  "fst (parseMarkerOptions [''scale:9.9999999999999999999'', ''offset:999.99999999999999999''] m) = m"
proof -
  have "fst (parseMarkerOption ''scale:9.9999999999999999999'' m) = m"
    using parseMarkerOption_scale [of "''9.9999999999999999999''" m]
    by (simp add: parseFloat_rounds_to_10 valid_scale_def)
  moreover have "split_on CHR '':'' ''offset:999.99999999999999999'' =
      [''offset'', ''999.99999999999999999'']"
    by code_simp
  moreover have "split_on CHR '','' ''999.99999999999999999'' = [''999.99999999999999999'']"
    by code_simp
  ultimately show ?thesis
    by (simp add: case_prod_beta parseMarkerOption_def parseFloat_rounds_to_1000 valid_offset_def)
qed

text \<open>
  Claim C6. For every marker, the options \<open>scale:2|offset:10,-5\<close> set scale to 2,
  offsetX to 10 and offsetY to -5, and \<open>scale:20\<close> leaves the marker as it was. For
  every option list, each of scale, offsetX and offsetY is afterwards either what it was
  before or a number that passed its test (strictly between 0 and 10 for the scale,
  absolute value below 1000 for an offset). A scale option sets the scale exactly when its
  value parses to such a number, and an offset option sets each offset exactly when its part
  does; a value that does not parse, or is out of range, leaves the field alone. The
  number tested is the binary64 number that parseFloat gives: \<open>9.9999999999999999999\<close>
  is 10 and \<open>999.99999999999999999\<close> is 1000, so neither is stored.
\<close>

theorem parseMarkerOptions_sets_only_valid_fields:
  "fst (parseMarkerOptions (drop 2 (split_on CHR ''|'' ''7.5,46|pin.png|scale:2|offset:10,-5'')) m) =
     m\<lparr>scale := Some 2, offsetX := Some 10, offsetY := Some (- 5)\<rparr> \<and>
   fst (parseMarkerOptions [''scale:20''] m) = m \<and>
   fst (parseMarkerOptions [''scale:9.9999999999999999999'', ''offset:999.99999999999999999''] m) = m \<and>
   kept_or_valid m (fst (parseMarkerOptions optionsList m)) \<and>
   (CHR '':'' \<notin> set v \<longrightarrow>
      fst (parseMarkerOption (''scale:'' @ v) m) =
        (case parseFloat v of
           Finite q \<Rightarrow> if 0 < q \<and> q < 10 then m\<lparr>scale := Some q\<rparr> else m
         | _ \<Rightarrow> m)) \<and>
   (CHR '':'' \<notin> set vx \<and> CHR '','' \<notin> set vx \<and> CHR '':'' \<notin> set vy \<and> CHR '','' \<notin> set vy \<longrightarrow>
      scale (fst (parseMarkerOption (''offset:'' @ vx @ '','' @ vy) m)) = scale m \<and>
      offsetX (fst (parseMarkerOption (''offset:'' @ vx @ '','' @ vy) m)) =
        (case parseFloat vx of
           Finite q \<Rightarrow> if \<bar>q\<bar> < 1000 then Some q else offsetX m
         | _ \<Rightarrow> offsetX m) \<and>
      offsetY (fst (parseMarkerOption (''offset:'' @ vx @ '','' @ vy) m)) =
        (case parseFloat vy of
           Finite q \<Rightarrow> if \<bar>q\<bar> < 1000 then Some q else offsetY m
         | _ \<Rightarrow> offsetY m))"
proof (intro conjI impI)
  show "fst (parseMarkerOptions (drop 2 (split_on CHR ''|'' ''7.5,46|pin.png|scale:2|offset:10,-5'')) m) =
     m\<lparr>scale := Some 2, offsetX := Some 10, offsetY := Some (- 5)\<rparr>"
    by (rule parseMarkerOptions_scale_and_offset)
  show "fst (parseMarkerOptions [''scale:20''] m) = m" by (rule parseMarkerOptions_scale_20)
  show "fst (parseMarkerOptions [''scale:9.9999999999999999999'', ''offset:999.99999999999999999''] m) = m"
    by (rule parseMarkerOptions_rounded)
  show "kept_or_valid m (fst (parseMarkerOptions optionsList m))"
    by (rule parseMarkerOptions_kept_or_valid)
next
  assume v: "CHR '':'' \<notin> set v"
  show "fst (parseMarkerOption (''scale:'' @ v) m) =
        (case parseFloat v of
           Finite q \<Rightarrow> if 0 < q \<and> q < 10 then m\<lparr>scale := Some q\<rparr> else m
         | _ \<Rightarrow> m)"
    unfolding parseMarkerOption_scale [OF v] by (simp add: valid_scale_def split: number.splits)
next
  assume a: "CHR '':'' \<notin> set vx \<and> CHR '','' \<notin> set vx \<and> CHR '':'' \<notin> set vy \<and> CHR '','' \<notin> set vy"
  then have o: "fst (parseMarkerOption (''offset:'' @ vx @ '','' @ vy) m) =
           (let m1 = (case valid_offset (parseFloat vx) of Some q \<Rightarrow> m\<lparr>offsetX := Some q\<rparr> | None \<Rightarrow> m)
            in case valid_offset (parseFloat vy) of Some q \<Rightarrow> m1\<lparr>offsetY := Some q\<rparr> | None \<Rightarrow> m1)"
    by (intro parseMarkerOption_offset) simp_all
  show "scale (fst (parseMarkerOption (''offset:'' @ vx @ '','' @ vy) m)) = scale m"
    unfolding o by (simp add: Let_def split: option.splits)
  show "offsetX (fst (parseMarkerOption (''offset:'' @ vx @ '','' @ vy) m)) =
        (case parseFloat vx of
           Finite q \<Rightarrow> if \<bar>q\<bar> < 1000 then Some q else offsetX m
         | _ \<Rightarrow> offsetX m)"
    unfolding o by (simp add: Let_def valid_offset_def split: option.splits number.splits)
  show "offsetY (fst (parseMarkerOption (''offset:'' @ vx @ '','' @ vy) m)) =
        (case parseFloat vy of
           Finite q \<Rightarrow> if \<bar>q\<bar> < 1000 then Some q else offsetY m
         | _ \<Rightarrow> offsetY m)"
    unfolding o by (simp add: Let_def valid_offset_def split: option.splits number.splits)
qed

theorem parseMarkerOptions_sets_only_valid_fields_witness:
  "fst (parseMarkerOption ''scale:abc'' pin) = pin \<and>
   fst (parseMarkerOption ''scale:0.5'' pin) = pin\<lparr>scale := Some (1 / 2)\<rparr> \<and>
   offsetX (fst (parseMarkerOption ''offset:1000,-5'' pin)) = None \<and>
   offsetY (fst (parseMarkerOption ''offset:1000,-5'' pin)) = Some (- 5)"
proof -
  note p = parseFloat_abc parseFloat_half parseFloat_1000 parseFloat_minus_5
  have c: "CHR '':'' \<notin> set ''abc''" "CHR '':'' \<notin> set ''0.5''"
    "CHR '':'' \<notin> set ''1000'' \<and> CHR '','' \<notin> set ''1000'' \<and> CHR '':'' \<notin> set ''-5'' \<and> CHR '','' \<notin> set ''-5''"
    by simp_all
  from parseMarkerOptions_sets_only_valid_fields [of pin "[]" "''abc''" "''1000''" "''-5''"]
       parseMarkerOptions_sets_only_valid_fields [of pin "[]" "''0.5''" "''1000''" "''-5''"] c p
  show ?thesis by (simp add: pin_def)
qed

section \<open>Properties of respondImage\<close>

lemma begin_render_answered_once: "answered_once (begin_render acq render_throws)"
  by (cases acq) (simp_all add: begin_render_def answered_once_def send_def pool_call_def fresh_def)

lemma handle_answered_once: "answered_once s \<Longrightarrow> answered_once (handle job s ev)"
  by (cases ev)
     (auto simp: answered_once_def on_timeout_def on_render_def on_encoded_def send_def
        pool_call_def Let_def split: option.splits)

lemma run_answered_once: "answered_once s \<Longrightarrow> answered_once (run job evs s)"
  unfolding run_def by (induction evs arbitrary: s) (simp_all add: handle_answered_once)

lemma run_timer_first:
  "run job (TimerFired # evs) (begin_render Renderer False) =
     run job evs \<lparr>headersSent = True, responses = [(503, Text ''Renderer timeout'')],
                  pool_calls = [RemoveBadObject], timer_set = False, encoding = None\<rparr>"
  by (simp add: run_def begin_render_def fresh_def on_timeout_def pool_call_def send_def)

lemma run_late_render:
  "headersSent s \<Longrightarrow> encoding s = None \<Longrightarrow>
   run job [RenderDone err pixels, EncodeDone ok] s = s\<lparr>timer_set := False\<rparr>"
  by (simp add: run_def on_render_def on_encoded_def)

text \<open>
  Claim C7. When the render call has not answered after the 30000 milliseconds of the
  timer (or never answers), the timer's callback calls removeBadObject on the renderer and
  sends the response 503 \<open>Renderer timeout\<close>; the renderer is not released, and the
  late answer of the render call sends nothing. Whatever the order and number of the
  callbacks, at most one response is sent for the request.
\<close>

theorem render_timeout_evicts_and_answers_once:
  "((reply = None \<or> (\<exists>r. reply = Some r \<and> RENDER_TIMEOUT \<le> after_ms r)) \<longrightarrow>
      responses (respondImage job reply) = [(503, Text ''Renderer timeout'')] \<and>
      pool_calls (respondImage job reply) = [RemoveBadObject]) \<and>
   length (responses (respondImage job reply)) \<le> 1 \<and>
   length (responses (run job evs (begin_render acq render_throws))) \<le> 1"
proof (intro conjI impI)
  assume "reply = None \<or> (\<exists>r. reply = Some r \<and> RENDER_TIMEOUT \<le> after_ms r)"
  then have "respondImage job reply =
     \<lparr>headersSent = True, responses = [(503, Text ''Renderer timeout'')],
      pool_calls = [RemoveBadObject], timer_set = False, encoding = None\<rparr>"
  proof
    assume "reply = None"
    then show ?thesis
      by (simp add: respondImage_def timeline_def run_timer_first) (simp add: run_def)
  next
    assume "\<exists>r. reply = Some r \<and> RENDER_TIMEOUT \<le> after_ms r"
    then obtain r where "reply = Some r" "RENDER_TIMEOUT \<le> after_ms r" by blast
    then show ?thesis
      by (simp add: respondImage_def timeline_def run_timer_first run_late_render)
  qed
  then show "responses (respondImage job reply) = [(503, Text ''Renderer timeout'')]"
    and "pool_calls (respondImage job reply) = [RemoveBadObject]"
    by simp_all
next
  have "answered_once (respondImage job reply)"
    unfolding respondImage_def by (intro run_answered_once begin_render_answered_once)
  then show "length (responses (respondImage job reply)) \<le> 1"
    by (simp add: answered_once_def)
next
  have "answered_once (run job evs (begin_render acq render_throws))"
    by (intro run_answered_once begin_render_answered_once)
  then show "length (responses (run job evs (begin_render acq render_throws))) \<le> 1"
    by (simp add: answered_once_def)
qed

theorem render_timeout_evicts_and_answers_once_witness:
  "responses (respondImage static_job
      (Some \<lparr>after_ms = 31000, render_error = None, rendered = [7], encoded_ok = True\<rparr>)) =
     [(503, Text ''Renderer timeout'')] \<and>
   pool_calls (respondImage static_job
      (Some \<lparr>after_ms = 31000, render_error = None, rendered = [7], encoded_ok = True\<rparr>)) =
     [RemoveBadObject]"
proof -
  have "RENDER_TIMEOUT \<le> after_ms \<lparr>after_ms = 31000, render_error = None, rendered = [7], encoded_ok = True\<rparr>"
    by (simp add: RENDER_TIMEOUT_def)
  with render_timeout_evicts_and_answers_once
    [of "Some \<lparr>after_ms = 31000, render_error = None, rendered = [7], encoded_ok = True\<rparr>" static_job "[]" Renderer False]
  show ?thesis by simp
qed

lemma composites_sorted: "sorted_wrt (\<lambda>a b. layer_rank a < layer_rank b) (composites job)"
  by (auto simp: composites_def sorted_wrt_append split: option.splits)

text \<open>
  Claim C9. The layers composited onto the raw render are in the fixed order overlay,
  watermark, attribution, each at most once: the overlay exactly when there is one, the
  watermark exactly when one is configured, the attribution exactly in static mode with a
  configured text. The raw render is the base, the layers go into one composite step, and
  a render that succeeds in time is answered with the image so built.
\<close>

theorem composites_fixed_order:
  "sorted_wrt (\<lambda>a b. layer_rank a < layer_rank b) (composites job) \<and>
   ((\<exists>buf. Overlay buf \<in> set (composites job)) \<longleftrightarrow> overlay job \<noteq> None) \<and>
   ((\<exists>w h s text. Watermark w h s text \<in> set (composites job)) \<longleftrightarrow> configured (watermark job)) \<and>
   ((\<exists>w h s text. Attribution w h s text \<in> set (composites job)) \<longleftrightarrow>
      mode job = ''static'' \<and> configured (staticAttributionText job)) \<and>
   raw (build_image job buffer) = buffer \<and>
   (Composite (composites job) \<in> set (ops (build_image job buffer)) \<longleftrightarrow> composites job \<noteq> []) \<and>
   (after_ms r < RENDER_TIMEOUT \<and> render_error r = None \<and> encoded_ok r \<longrightarrow>
      responses (respondImage job (Some r)) = [(200, Picture (build_image job (rendered r)))])"
proof (intro conjI impI)
  show "sorted_wrt (\<lambda>a b. layer_rank a < layer_rank b) (composites job)"
    by (rule composites_sorted)
  show "(\<exists>buf. Overlay buf \<in> set (composites job)) \<longleftrightarrow> overlay job \<noteq> None"
    by (cases "overlay job"; cases "watermark job"; cases "staticAttributionText job")
       (auto simp: composites_def)
  show "(\<exists>w h s text. Watermark w h s text \<in> set (composites job)) \<longleftrightarrow> configured (watermark job)"
    by (cases "overlay job"; cases "watermark job"; cases "staticAttributionText job")
       (auto simp: composites_def configured_def)
  show "(\<exists>w h s text. Attribution w h s text \<in> set (composites job)) \<longleftrightarrow>
      mode job = ''static'' \<and> configured (staticAttributionText job)"
    by (cases "overlay job"; cases "watermark job"; cases "staticAttributionText job")
       (auto simp: composites_def configured_def)
  show "raw (build_image job buffer) = buffer" by (simp add: build_image_def)
  show "Composite (composites job) \<in> set (ops (build_image job buffer)) \<longleftrightarrow> composites job \<noteq> []"
    by (auto simp: build_image_def)
next
  assume "after_ms r < RENDER_TIMEOUT \<and> render_error r = None \<and> encoded_ok r"
  then show "responses (respondImage job (Some r)) = [(200, Picture (build_image job (rendered r)))]"
    by (simp add: respondImage_def timeline_def run_def begin_render_def fresh_def on_render_def
          on_encoded_def on_timeout_def pool_call_def send_def)
qed

theorem composites_fixed_order_witness:
  "responses (respondImage static_job
      (Some \<lparr>after_ms = 120, render_error = None, rendered = [7], encoded_ok = True\<rparr>)) =
     [(200, Picture \<lparr>raw = [7],
                     ops = [Composite [Overlay [1, 2], Watermark 512 512 1 ''(c) maps'',
                                       Attribution 512 512 1 ''OSM''],
                            ToFormat ''png'']\<rparr>)]"
proof -
  have "after_ms \<lparr>after_ms = 120, render_error = None, rendered = [7], encoded_ok = True\<rparr> < RENDER_TIMEOUT
    \<and> render_error \<lparr>after_ms = 120, render_error = None, rendered = [7], encoded_ok = True\<rparr> = None
    \<and> encoded_ok \<lparr>after_ms = 120, render_error = None, rendered = [7], encoded_ok = True\<rparr>"
    by (simp add: RENDER_TIMEOUT_def)
  with composites_fixed_order
    [of static_job "[7]" "\<lparr>after_ms = 120, render_error = None, rendered = [7], encoded_ok = True\<rparr>"]
  show ?thesis by (simp add: build_image_def composites_def static_job_def)
qed

section \<open>Properties of the request callback\<close>

lemma fetchTileData_never_throws: "\<exists>r. fetchTileData src z x y = Returned r"
proof (cases src)
  case None
  then show ?thesis by (simp add: fetchTileData_def)
next
  case (Some s)
  show ?thesis
  proof (cases s)
    case (PMTilesSource p)
    from getPMtilesTile_never_throws [of p z x y 3] obtain r where
      "fst (getPMtilesTile p z x y 3) = Returned r" by blast
    with Some PMTilesSource show ?thesis by (cases r) (simp_all add: fetchTileData_def)
  next
    case (MBTilesSource m)
    with Some show ?thesis by (simp add: fetchTileData_def split: sum.splits prod.splits)
  qed
qed

lemma createEmptyResponse_not_Absent: "fst (createEmptyResponse cd cache fmt col) \<noteq> Absent"
proof (cases "fmt = None \<or> fmt = Some [] \<or> fmt = Some ''pbf''")
  case True
  then show ?thesis unfolding createEmptyResponse_def by (simp only: if_True fst_conv) simp
next
  case False
  then show ?thesis
    unfolding createEmptyResponse_def Let_def
    by (simp only: if_False split: option.split sum.split) simp
qed

lemma createEmptyResponse_no_image:
  assumes "fmt = None \<or> fmt = Some [] \<or> fmt = Some ''pbf''"
  shows "createEmptyResponse cd cachedEmptyResponses fmt col =
           (Reply \<lparr>resp_data = Some [], resp_modified = None\<rparr>, cachedEmptyResponses)"
  using assms unfolding createEmptyResponse_def
  by (simp only: if_True) (simp add: cachedEmptyResponses_def)

lemma createEmptyResponse_image:
  assumes "\<not> (fmt = None \<or> fmt = Some [] \<or> fmt = Some ''pbf'')"
    and "fmt \<noteq> Some ''jpg''" and "col = Some c" and "c \<noteq> []"
    and "cache (the fmt @ '','' @ c) = None"
    and "parse_color cd c = Inr array"
    and "encode_pixel cd (the fmt) array (if length array = 4 \<and> the fmt \<noteq> ''jpeg'' then 4 else 3) = Inr buffer"
  shows "createEmptyResponse cd cache fmt col =
           (Reply \<lparr>resp_data = Some buffer, resp_modified = None\<rparr>,
            cache(the fmt @ '','' @ c \<mapsto> buffer))"
  using assms unfolding createEmptyResponse_def Let_def
  by (simp only: if_False option.case sum.case)

text \<open>
  Claim C2. When the tile fetch of a request to a registered source yields no tile: if
  the source is marked sparse, the callback is called with no arguments (no data, no
  error) and nothing is thrown; otherwise the callback gets what createEmptyResponse
  makes of the format and the colour the source declares, which is never the absent
  signal: the empty buffer when the format is not set or is \<open>pbf\<close>, and for an image
  format the one-pixel image that the encoder makes of the parsed colour, which is then
  cached under format and colour.
\<close>

theorem request_tile_miss:
  assumes "\<forall>t. fetchTileData (sources m (req_sourceId rq)) (req_z rq) (req_x rq) (req_y rq) \<noteq>
                Returned (Some t)"
    and "styleSources m (req_sourceId rq) = Some sourceInfo"
  shows "(info_sparse sourceInfo = Some True \<longrightarrow>
            request_tile cd hp m cache rq = (Returned Absent, cache)) \<and>
         (info_sparse sourceInfo \<noteq> Some True \<longrightarrow>
            request_tile cd hp m cache rq =
              (Returned (fst (createEmptyResponse cd cache (info_format sourceInfo) (info_color sourceInfo))),
               snd (createEmptyResponse cd cache (info_format sourceInfo) (info_color sourceInfo))) \<and>
            fst (request_tile cd hp m cache rq) \<noteq> Returned Absent) \<and>
         (info_sparse sourceInfo \<noteq> Some True \<and>
          (info_format sourceInfo = None \<or> info_format sourceInfo = Some [] \<or>
           info_format sourceInfo = Some ''pbf'') \<longrightarrow>
            request_tile cd hp m cachedEmptyResponses rq =
              (Returned (Reply \<lparr>resp_data = Some [], resp_modified = None\<rparr>), cachedEmptyResponses)) \<and>
         (info_sparse sourceInfo \<noteq> Some True \<and>
          info_format sourceInfo = Some f \<and> f \<noteq> [] \<and> f \<noteq> ''pbf'' \<and> f \<noteq> ''jpg'' \<and>
          info_color sourceInfo = Some c \<and> c \<noteq> [] \<and> cache (f @ '','' @ c) = None \<and>
          parse_color cd c = Inr array \<and>
          encode_pixel cd f array (if length array = 4 \<and> f \<noteq> ''jpeg'' then 4 else 3) = Inr buffer \<longrightarrow>
            request_tile cd hp m cache rq =
              (Returned (Reply \<lparr>resp_data = Some buffer, resp_modified = None\<rparr>),
               cache(f @ '','' @ c \<mapsto> buffer))) \<and>
         (\<forall>e. fst (request_tile cd hp m cache rq) \<noteq> Threw e)"
proof -
  from fetchTileData_never_throws obtain r where
    "fetchTileData (sources m (req_sourceId rq)) (req_z rq) (req_x rq) (req_y rq) = Returned r"
    by blast
  with assms(1) have miss:
    "fetchTileData (sources m (req_sourceId rq)) (req_z rq) (req_x rq) (req_y rq) = Returned None"
    by (cases r) auto
  have dense: "request_tile cd hp m cache' rq =
      (Returned (fst (createEmptyResponse cd cache' (info_format sourceInfo) (info_color sourceInfo))),
       snd (createEmptyResponse cd cache' (info_format sourceInfo) (info_color sourceInfo)))"
    if "info_sparse sourceInfo \<noteq> Some True" for cache'
    using that miss assms(2) by (simp add: request_tile_def case_prod_beta)
  have sparse: "request_tile cd hp m cache rq = (Returned Absent, cache)"
    if "info_sparse sourceInfo = Some True"
    using that miss assms(2) by (simp add: request_tile_def)
  show ?thesis
  proof (intro conjI impI allI)
    assume "info_sparse sourceInfo = Some True"
    then show "request_tile cd hp m cache rq = (Returned Absent, cache)" by (rule sparse)
  next
    assume n: "info_sparse sourceInfo \<noteq> Some True"
    then show "request_tile cd hp m cache rq =
        (Returned (fst (createEmptyResponse cd cache (info_format sourceInfo) (info_color sourceInfo))),
         snd (createEmptyResponse cd cache (info_format sourceInfo) (info_color sourceInfo)))"
      by (rule dense)
    with createEmptyResponse_not_Absent [of cd cache "info_format sourceInfo" "info_color sourceInfo"]
    show "fst (request_tile cd hp m cache rq) \<noteq> Returned Absent" by simp
  next
    assume a: "info_sparse sourceInfo \<noteq> Some True \<and>
      (info_format sourceInfo = None \<or> info_format sourceInfo = Some [] \<or>
       info_format sourceInfo = Some ''pbf'')"
    then have "createEmptyResponse cd cachedEmptyResponses (info_format sourceInfo) (info_color sourceInfo) =
        (Reply \<lparr>resp_data = Some [], resp_modified = None\<rparr>, cachedEmptyResponses)"
      by (intro createEmptyResponse_no_image) simp
    with a show "request_tile cd hp m cachedEmptyResponses rq =
        (Returned (Reply \<lparr>resp_data = Some [], resp_modified = None\<rparr>), cachedEmptyResponses)"
      by (simp add: dense)
  next
    assume a: "info_sparse sourceInfo \<noteq> Some True \<and>
          info_format sourceInfo = Some f \<and> f \<noteq> [] \<and> f \<noteq> ''pbf'' \<and> f \<noteq> ''jpg'' \<and>
          info_color sourceInfo = Some c \<and> c \<noteq> [] \<and> cache (f @ '','' @ c) = None \<and>
          parse_color cd c = Inr array \<and>
          encode_pixel cd f array (if length array = 4 \<and> f \<noteq> ''jpeg'' then 4 else 3) = Inr buffer"
    then have "createEmptyResponse cd cache (info_format sourceInfo) (info_color sourceInfo) =
        (Reply \<lparr>resp_data = Some buffer, resp_modified = None\<rparr>, cache(the (info_format sourceInfo) @ '','' @ c \<mapsto> buffer))"
      by (intro createEmptyResponse_image) (auto split: if_splits)
    with a show "request_tile cd hp m cache rq =
        (Returned (Reply \<lparr>resp_data = Some buffer, resp_modified = None\<rparr>),
         cache(f @ '','' @ c \<mapsto> buffer))"
      by (simp add: dense)
  next
    fix e
    show "fst (request_tile cd hp m cache rq) \<noteq> Threw e"
      using miss assms(2) by (simp add: request_tile_def case_prod_beta)
  qed
qed

theorem request_tile_miss_witness:
  "request_tile one_pixel_codec plain_helpers three_sources cachedEmptyResponses (tile_of ''sparse'') =
     (Returned Absent, cachedEmptyResponses) \<and>
   request_tile one_pixel_codec plain_helpers three_sources cachedEmptyResponses (tile_of ''dense'') =
     (Returned (Reply \<lparr>resp_data = Some [4], resp_modified = None\<rparr>),
      cachedEmptyResponses(''png,white'' \<mapsto> [4])) \<and>
   request_tile one_pixel_codec plain_helpers three_sources cachedEmptyResponses (tile_of ''vector'') =
     (Returned (Reply \<lparr>resp_data = Some [], resp_modified = None\<rparr>), cachedEmptyResponses)"
proof -
  have f: "\<forall>t. fetchTileData (sources three_sources (req_sourceId (tile_of name))) (req_z (tile_of name))
             (req_x (tile_of name)) (req_y (tile_of name)) \<noteq> Returned (Some t)"
    if "name = ''sparse'' \<or> name = ''dense'' \<or> name = ''vector''" for name
    using that
    by (auto simp: fetchTileData_def three_sources_def tile_of_def getPMtilesTile_def
          tile_loop.simps [of _ _ _ _ 3 0] tile_attempt_def steady_archive_def)
  have s: "styleSources three_sources (req_sourceId (tile_of ''sparse'')) =
      Some \<lparr>info_sparse = Some True, info_format = Some ''png'', info_color = None\<rparr>"
    by (simp add: three_sources_def tile_of_def)
  have d: "styleSources three_sources (req_sourceId (tile_of ''dense'')) =
      Some \<lparr>info_sparse = None, info_format = Some ''png'', info_color = Some ''white''\<rparr>"
    by (simp add: three_sources_def tile_of_def)
  have v: "styleSources three_sources (req_sourceId (tile_of ''vector'')) =
      Some \<lparr>info_sparse = Some False, info_format = Some ''pbf'', info_color = None\<rparr>"
    by (simp add: three_sources_def tile_of_def)
  note sparse = request_tile_miss [OF f s, of one_pixel_codec plain_helpers cachedEmptyResponses,
      THEN conjunct1, THEN mp]
  note image = request_tile_miss [OF f d, of one_pixel_codec plain_helpers cachedEmptyResponses
      "''png''" "''white''" "[255, 255, 255, 0]" "[4]",
      THEN conjunct2, THEN conjunct2, THEN conjunct2, THEN conjunct1, THEN mp]
  note no_image = request_tile_miss [OF f v, of one_pixel_codec plain_helpers cachedEmptyResponses,
      THEN conjunct2, THEN conjunct2, THEN conjunct1, THEN mp]
  have 1: "request_tile one_pixel_codec plain_helpers three_sources cachedEmptyResponses (tile_of ''sparse'') =
     (Returned Absent, cachedEmptyResponses)"
    by (rule sparse) simp_all
  have 2: "request_tile one_pixel_codec plain_helpers three_sources cachedEmptyResponses (tile_of ''dense'') =
     (Returned (Reply \<lparr>resp_data = Some [4], resp_modified = None\<rparr>),
      cachedEmptyResponses(''png'' @ '','' @ ''white'' \<mapsto> [4]))"
    by (rule image) (simp_all add: cachedEmptyResponses_def one_pixel_codec_def)
  have 3: "request_tile one_pixel_codec plain_helpers three_sources cachedEmptyResponses (tile_of ''vector'') =
     (Returned (Reply \<lparr>resp_data = Some [], resp_modified = None\<rparr>), cachedEmptyResponses)"
    by (rule no_image) simp_all
  from 1 2 3 show ?thesis by simp
qed

end
